theory Spec2Isabelle
  imports Main
begin

section \<open>Python strings\<close>

text \<open>
  A Python \<open>str\<close> is a sequence of Unicode code points, so it is modelled as a list of
  integers (what \<open>ord\<close> returns). Source-code literals are written as HOL strings and converted with \<open>str\<close>;
  \<open>code\<close> is Python's \<open>ord\<close> on a literal character.
\<close>

type_synonym pystr = "int list"

abbreviation code :: "char \<Rightarrow> int" where
  "code \<equiv> of_char"

abbreviation str :: "string \<Rightarrow> pystr" where
  "str \<equiv> map of_char"

text \<open>
  \<open>str.isspace\<close> for one code point: the ASCII table of CPython
  (\<open>0x09\<close>-\<open>0x0D\<close>, \<open>0x1C\<close>-\<open>0x1F\<close>, \<open>0x20\<close>) and the Unicode white-space code points.
\<close>

definition isspace :: "int \<Rightarrow> bool" where
  "isspace c \<longleftrightarrow>
     (9 \<le> c \<and> c \<le> 13) \<or> (28 \<le> c \<and> c \<le> 32) \<or> c = 133 \<or> c = 160 \<or> c = 5760 \<or>
     (8192 \<le> c \<and> c \<le> 8202) \<or> c = 8232 \<or> c = 8233 \<or> c = 8239 \<or> c = 8287 \<or> c = 12288"

definition lstrip :: "pystr \<Rightarrow> pystr" where
  "lstrip s = dropWhile isspace s"

definition rstrip :: "pystr \<Rightarrow> pystr" where
  "rstrip s = rev (dropWhile isspace (rev s))"

definition strip :: "pystr \<Rightarrow> pystr" where
  "strip s = rstrip (lstrip s)"

definition startswith :: "pystr \<Rightarrow> pystr \<Rightarrow> bool" where
  "startswith s p \<longleftrightarrow> take (length p) s = p"

definition endswith :: "pystr \<Rightarrow> pystr \<Rightarrow> bool" where
  "endswith s p \<longleftrightarrow> length p \<le> length s \<and> drop (length s - length p) s = p"

text \<open>\<open>s.find(c)\<close> and \<open>s.rfind(c)\<close> for a one-character pattern: an index, or \<open>-1\<close>.\<close>

fun find :: "pystr \<Rightarrow> int \<Rightarrow> int" where
  "find [] c = -1"
| "find (x # xs) c = (if x = c then 0 else (let i = find xs c in if i = -1 then -1 else i + 1))"

definition rfind :: "pystr \<Rightarrow> int \<Rightarrow> int" where
  "rfind s c = (let i = find (rev s) c in if i = -1 then -1 else int (length s) - 1 - i)"

text \<open>The slice \<open>s[i : j]\<close> for indices that are not negative.\<close>

definition slice :: "pystr \<Rightarrow> int \<Rightarrow> int \<Rightarrow> pystr" where
  "slice s i j = take (nat j - nat i) (drop (nat i) s)"

section \<open>JSON values and \<open>json.loads\<close>\<close>

text \<open>
  The values \<open>json.loads\<close> returns: \<open>None\<close>, \<open>bool\<close>, \<open>int\<close> (unbounded), \<open>float\<close>,
  \<open>str\<close>, \<open>list\<close> and \<open>dict\<close>. A float is kept as the literal the decoder read
  (\<open>NaN\<close>, \<open>Infinity\<close> and \<open>-Infinity\<close> included); no arithmetic is done on it. A dict is an
  association list with distinct keys in insertion order.
\<close>

datatype json =
    JNull
  | JBool bool
  | JInt int
  | JFloat pystr
  | JStr pystr
  | JArr "json list"
  | JObj "(pystr \<times> json) list"

type_synonym dict = "(pystr \<times> json) list"

text \<open>\<open>d[k] = v\<close>: an existing key keeps its position and takes the new value.\<close>

fun dict_set :: "dict \<Rightarrow> pystr \<Rightarrow> json \<Rightarrow> dict" where
  "dict_set [] k v = [(k, v)]"
| "dict_set ((k', v') # d) k v = (if k' = k then (k, v) # d else (k', v') # dict_set d k v)"

text \<open>
  The decoder follows CPython's scanner (\<open>Modules/_json.c\<close>, strict mode): white space is
  blank, tab, line feed and carriage return; a string may not hold a control character;
  \<open>\\uXXXX\<close> escapes take four hexadecimal digits and a surrogate pair is joined.
  Interpreter resource limits (recursion depth, the digit limit of \<open>int\<close>) are not modelled.
\<close>

definition is_ws :: "int \<Rightarrow> bool" where
  "is_ws c \<longleftrightarrow> c = 32 \<or> c = 9 \<or> c = 10 \<or> c = 13"

definition skip_ws :: "pystr \<Rightarrow> pystr" where
  "skip_ws s = dropWhile is_ws s"

definition is_digit :: "int \<Rightarrow> bool" where
  "is_digit c \<longleftrightarrow> 48 \<le> c \<and> c \<le> 57"

definition hex_digit :: "int \<Rightarrow> int option" where
  "hex_digit c =
     (if 48 \<le> c \<and> c \<le> 57 then Some (c - 48)
      else if 97 \<le> c \<and> c \<le> 102 then Some (c - 87)
      else if 65 \<le> c \<and> c \<le> 70 then Some (c - 55)
      else None)"

text \<open>Four hexadecimal digits at the head of the text, as a number.\<close>

definition hex4 :: "pystr \<Rightarrow> int option" where
  "hex4 s =
     (case s of
        a # b # c # d # _ \<Rightarrow>
          (case (hex_digit a, hex_digit b, hex_digit c, hex_digit d) of
             (Some x, Some y, Some z, Some w) \<Rightarrow> Some (((x * 16 + y) * 16 + z) * 16 + w)
           | _ \<Rightarrow> None)
      | _ \<Rightarrow> None)"

definition unescape :: "int \<Rightarrow> int option" where
  "unescape e =
     (if e = 34 then Some 34
      else if e = 92 then Some 92
      else if e = 47 then Some 47
      else if e = code CHR ''b'' then Some 8
      else if e = code CHR ''f'' then Some 12
      else if e = code CHR ''n'' then Some 10
      else if e = code CHR ''r'' then Some 13
      else if e = code CHR ''t'' then Some 9
      else None)"

definition is_high_surrogate :: "int \<Rightarrow> bool" where
  "is_high_surrogate c \<longleftrightarrow> 55296 \<le> c \<and> c \<le> 56319"

definition is_low_surrogate :: "int \<Rightarrow> bool" where
  "is_low_surrogate c \<longleftrightarrow> 56320 \<le> c \<and> c \<le> 57343"

definition join_surrogates :: "int \<Rightarrow> int \<Rightarrow> int" where
  "join_surrogates hi lo = 65536 + (hi - 55296) * 1024 + (lo - 56320)"

text \<open>
  The low half of a surrogate pair: the text goes on with \<open>\\u\<close> and four hexadecimal digits
  that name a low surrogate.
\<close>

definition low_half :: "pystr \<Rightarrow> int option" where
  "low_half s =
     (case s of
        b # u # r \<Rightarrow>
          (if b = 92 \<and> u = code CHR ''u'' then
             (case hex4 r of
                Some lo \<Rightarrow> if is_low_surrogate lo then Some lo else None
              | None \<Rightarrow> None)
           else None)
      | _ \<Rightarrow> None)"

text \<open>
  \<open>scanstring\<close>, called behind the opening quote: the decoded string and the text behind the
  closing quote, or \<open>None\<close> where the decoder raises.
\<close>

fun scanstring :: "pystr \<Rightarrow> (pystr \<times> pystr) option" where
  "scanstring [] = None"
| "scanstring (c # s) =
     (if c = 34 then Some ([], s)
      else if c = 92 then
        (case s of
           [] \<Rightarrow> None
         | e # t \<Rightarrow>
             if e = code CHR ''u'' then
               (case hex4 t of
                  None \<Rightarrow> None
                | Some u \<Rightarrow>
                    (case (if is_high_surrogate u then low_half (drop 4 t) else None) of
                       Some lo \<Rightarrow>
                         map_option (\<lambda>(x, r). (join_surrogates u lo # x, r))
                           (scanstring (drop 10 t))
                     | None \<Rightarrow>
                         map_option (\<lambda>(x, r). (u # x, r)) (scanstring (drop 4 t))))
             else
               (case unescape e of
                  None \<Rightarrow> None
                | Some x0 \<Rightarrow> map_option (\<lambda>(x, r). (x0 # x, r)) (scanstring t)))
      else if c < 32 then None
      else map_option (\<lambda>(x, r). (c # x, r)) (scanstring s))"

text \<open>
  The number at the head of the text:
  \<open>-?(0|[1-9][0-9]*)(\\.[0-9]+)?([eE][-+]?[0-9]+)?\<close>, longest match, with backtracking over
  a fraction or an exponent that has no digit.
\<close>

definition int_part :: "pystr \<Rightarrow> (pystr \<times> pystr) option" where
  "int_part s =
     (case s of
        [] \<Rightarrow> None
      | c # t \<Rightarrow>
          if c = 48 then Some ([c], t)
          else if is_digit c then Some (c # takeWhile is_digit t, dropWhile is_digit t)
          else None)"

definition frac_part :: "pystr \<Rightarrow> pystr \<times> pystr" where
  "frac_part s =
     (case s of
        p # d # t \<Rightarrow>
          if p = 46 \<and> is_digit d then (p # d # takeWhile is_digit t, dropWhile is_digit t)
          else ([], s)
      | _ \<Rightarrow> ([], s))"

definition exp_part :: "pystr \<Rightarrow> pystr \<times> pystr" where
  "exp_part s =
     (case s of
        [] \<Rightarrow> ([], s)
      | e # t \<Rightarrow>
          if e = code CHR ''e'' \<or> e = code CHR ''E'' then
            (case t of
               [] \<Rightarrow> ([], s)
             | g # t' \<Rightarrow>
                 if (g = 43 \<or> g = 45) \<and> t' \<noteq> [] \<and> is_digit (hd t') then
                   (e # g # takeWhile is_digit t', dropWhile is_digit t')
                 else if is_digit g then (e # takeWhile is_digit t, dropWhile is_digit t)
                 else ([], s))
          else ([], s))"

fun digits_value :: "int \<Rightarrow> pystr \<Rightarrow> int" where
  "digits_value acc [] = acc"
| "digits_value acc (c # s) = digits_value (acc * 10 + (c - 48)) s"

definition match_number :: "pystr \<Rightarrow> (json \<times> pystr) option" where
  "match_number s =
     (let neg = (s \<noteq> [] \<and> hd s = 45);
          s1 = (if neg then tl s else s)
      in case int_part s1 of
           None \<Rightarrow> None
         | Some (ds, r1) \<Rightarrow>
             (let (fs, r2) = frac_part r1;
                  (es, r3) = exp_part r2
              in if fs = [] \<and> es = [] then
                   Some (JInt (if neg then - digits_value 0 ds else digits_value 0 ds), r1)
                 else Some (JFloat ((if neg then [45] else []) @ ds @ fs @ es), r3)))"

text \<open>
  The recursive scanner. The fuel counts calls; \<open>json_loads\<close> gives it more than the
  scanner can use, as \<open>scan_once_fuel\<close> below shows.
\<close>

datatype 'a scan = Scanned 'a pystr | Invalid | NoFuel

fun scan_once :: "nat \<Rightarrow> pystr \<Rightarrow> json scan"
  and parse_object :: "nat \<Rightarrow> dict \<Rightarrow> pystr \<Rightarrow> json scan"
  and parse_array :: "nat \<Rightarrow> json list \<Rightarrow> pystr \<Rightarrow> json scan"
where
  "scan_once 0 s = NoFuel"
| "scan_once (Suc n) s =
     (case s of
        [] \<Rightarrow> Invalid
      | c # t \<Rightarrow>
          if c = 34 then
            (case scanstring t of None \<Rightarrow> Invalid | Some (x, r) \<Rightarrow> Scanned (JStr x) r)
          else if c = code CHR ''{'' then
            (case skip_ws t of
               [] \<Rightarrow> Invalid
             | c' # r \<Rightarrow>
                 if c' = code CHR ''}'' then Scanned (JObj []) r
                 else parse_object n [] (c' # r))
          else if c = code CHR ''['' then
            (case skip_ws t of
               [] \<Rightarrow> Invalid
             | c' # r \<Rightarrow>
                 if c' = code CHR '']'' then Scanned (JArr []) r
                 else parse_array n [] (c' # r))
          else if startswith s (str ''null'') then Scanned JNull (drop 4 s)
          else if startswith s (str ''true'') then Scanned (JBool True) (drop 4 s)
          else if startswith s (str ''false'') then Scanned (JBool False) (drop 5 s)
          else if startswith s (str ''NaN'') then Scanned (JFloat (str ''NaN'')) (drop 3 s)
          else if startswith s (str ''Infinity'') then
            Scanned (JFloat (str ''Infinity'')) (drop 8 s)
          else if startswith s (str ''-Infinity'') then
            Scanned (JFloat (str ''-Infinity'')) (drop 9 s)
          else (case match_number s of None \<Rightarrow> Invalid | Some (v, r) \<Rightarrow> Scanned v r))"
| "parse_object 0 d s = NoFuel"
| "parse_object (Suc n) d s =
     (case s of
        [] \<Rightarrow> Invalid
      | q # t \<Rightarrow>
          if q \<noteq> 34 then Invalid
          else
            (case scanstring t of
               None \<Rightarrow> Invalid
             | Some (key, r) \<Rightarrow>
                 (case skip_ws r of
                    [] \<Rightarrow> Invalid
                  | colon # r1 \<Rightarrow>
                      if colon \<noteq> code CHR '':'' then Invalid
                      else
                        (case scan_once n (skip_ws r1) of
                           NoFuel \<Rightarrow> NoFuel
                         | Invalid \<Rightarrow> Invalid
                         | Scanned v r2 \<Rightarrow>
                             (case skip_ws r2 of
                                [] \<Rightarrow> Invalid
                              | c # r3 \<Rightarrow>
                                  if c = code CHR ''}'' then Scanned (JObj (dict_set d key v)) r3
                                  else if c = code CHR '','' then
                                    parse_object n (dict_set d key v) (skip_ws r3)
                                  else Invalid)))))"
| "parse_array 0 xs s = NoFuel"
| "parse_array (Suc n) xs s =
     (case scan_once n s of
        NoFuel \<Rightarrow> NoFuel
      | Invalid \<Rightarrow> Invalid
      | Scanned v r \<Rightarrow>
          (case skip_ws r of
             [] \<Rightarrow> Invalid
           | c # r1 \<Rightarrow>
               if c = code CHR '']'' then Scanned (JArr (xs @ [v])) r1
               else if c = code CHR '','' then parse_array n (xs @ [v]) (skip_ws r1)
               else Invalid))"

text \<open>
  \<open>json.loads(s)\<close> for a \<open>str\<close>: white space, one value, white space, end of text.
  \<open>None\<close> stands for the \<open>JSONDecodeError\<close> the decoder raises.
\<close>

definition json_loads :: "pystr \<Rightarrow> json option" where
  "json_loads s =
     (case scan_once (2 * length s + 2) (skip_ws s) of
        Scanned v r \<Rightarrow> if skip_ws r = [] then Some v else None
      | Invalid \<Rightarrow> None
      | NoFuel \<Rightarrow> None)"

section \<open>Exceptions and the dynamic operations of the extractor\<close>

text \<open>
  The exceptions the handler can meet. \<open>JSONDecodeError\<close> is what \<open>json.loads\<close> raises;
  \<open>ClientError\<close> stands for whatever a collaborator (inference, persistence, notification)
  raises, with an opaque code.
\<close>

datatype error =
    JSONDecodeError
  | TypeError
  | AttributeError
  | IndexError
  | KeyError
  | ClientError nat

definition and_then :: "error + 'a \<Rightarrow> ('a \<Rightarrow> error + 'b) \<Rightarrow> error + 'b" where
  "and_then m f = (case m of Inl e \<Rightarrow> Inl e | Inr x \<Rightarrow> f x)"

text \<open>\<open>json.loads(x)\<close> for any value: only a \<open>str\<close> is accepted.\<close>

definition loads :: "json \<Rightarrow> error + json" where
  "loads x =
     (case x of
        JStr s \<Rightarrow> (case json_loads s of None \<Rightarrow> Inl JSONDecodeError | Some v \<Rightarrow> Inr v)
      | _ \<Rightarrow> Inl TypeError)"

text \<open>\<open>p in s\<close> for two strings: \<open>p\<close> occurs in \<open>s\<close>.\<close>

fun contains :: "pystr \<Rightarrow> pystr \<Rightarrow> bool" where
  "contains [] p = (p = [])"
| "contains (c # s) p = (startswith (c # s) p \<or> contains s p)"

text \<open>
  \<open>k in x\<close> for a string \<open>k\<close>: key membership in a dict, element membership in a list,
  substring test in a string, \<open>TypeError\<close> elsewhere.
\<close>

definition py_in :: "pystr \<Rightarrow> json \<Rightarrow> error + bool" where
  "py_in k x =
     (case x of
        JObj d \<Rightarrow> Inr (k \<in> fst ` set d)
      | JArr xs \<Rightarrow> Inr (JStr k \<in> set xs)
      | JStr s \<Rightarrow> Inr (contains s k)
      | _ \<Rightarrow> Inl TypeError)"

text \<open>\<open>x[k]\<close> for a string \<open>k\<close>: only a dict can be indexed by a string.\<close>

definition subscript :: "json \<Rightarrow> pystr \<Rightarrow> error + json" where
  "subscript x k =
     (case x of
        JObj d \<Rightarrow> (case map_of d k of None \<Rightarrow> Inl KeyError | Some v \<Rightarrow> Inr v)
      | _ \<Rightarrow> Inl TypeError)"

text \<open>
  \<open>x[0]\<close>: the first element of a list, the first character of a string,
  \<open>KeyError\<close> on a dict (its keys are strings), \<open>TypeError\<close> elsewhere.
\<close>

definition item0 :: "json \<Rightarrow> error + json" where
  "item0 x =
     (case x of
        JArr xs \<Rightarrow> (case xs of [] \<Rightarrow> Inl IndexError | y # _ \<Rightarrow> Inr y)
      | JStr s \<Rightarrow> (case s of [] \<Rightarrow> Inl IndexError | c # _ \<Rightarrow> Inr (JStr [c]))
      | JObj d \<Rightarrow> Inl KeyError
      | _ \<Rightarrow> Inl TypeError)"

text \<open>\<open>x.get(k, default)\<close>: only a dict has the method.\<close>

definition get :: "json \<Rightarrow> pystr \<Rightarrow> json \<Rightarrow> error + json" where
  "get x k dflt =
     (case x of
        JObj d \<Rightarrow> Inr (case map_of d k of None \<Rightarrow> dflt | Some v \<Rightarrow> v)
      | _ \<Rightarrow> Inl AttributeError)"

definition isinstance_list :: "json \<Rightarrow> bool" where
  "isinstance_list x = (case x of JArr _ \<Rightarrow> True | _ \<Rightarrow> False)"

text \<open>\<open>k in x and isinstance(x[k], list)\<close>, with the short circuit of \<open>and\<close>.\<close>

definition holds_list :: "json \<Rightarrow> pystr \<Rightarrow> error + bool" where
  "holds_list x k =
     and_then (py_in k x) (\<lambda>b.
       if b then and_then (subscript x k) (\<lambda>v. Inr (isinstance_list v)) else Inr False)"

section \<open>The response extractor (lines 185-237 of the handler)\<close>

text \<open>
  Stage A, lines 185-200. The direct parse is outside the inner \<open>try\<close>: its exception
  leaves the stage. In the other branch the \<open>ValueError\<close> and the \<open>JSONDecodeError\<close> are
  caught and \<open>bedrock_output\<close> stays the empty dict; the flag says that the failure was
  logged.
\<close>

definition stage_a :: "pystr \<Rightarrow> error + (json \<times> bool)" where
  "stage_a result_raw =
     (if startswith (strip result_raw) (str ''{'') \<and> endswith (strip result_raw) (str ''}'') then
        (case json_loads result_raw of
           None \<Rightarrow> Inl JSONDecodeError
         | Some v \<Rightarrow> Inr (v, False))
      else
        (let json_start = find result_raw (code CHR ''{'');
             json_end = rfind result_raw (code CHR ''}'')
         in if json_start \<noteq> -1 \<and> json_end \<noteq> -1 \<and> json_end > json_start then
              (case json_loads (slice result_raw json_start (json_end + 1)) of
                 None \<Rightarrow> Inr (JObj [], True)
               | Some v \<Rightarrow> Inr (v, False))
            else Inr (JObj [], True)))"

text \<open>Stage B, lines 213-229: the family envelopes, in the order of the source.\<close>

definition stage_b :: "json \<Rightarrow> error + json" where
  "stage_b bedrock_output =
     and_then (py_in (str ''completion'') bedrock_output) (\<lambda>c1.
       if c1 then and_then (subscript bedrock_output (str ''completion'')) loads
       else and_then (holds_list bedrock_output (str ''content'')) (\<lambda>c2.
         if c2 then
           and_then (subscript bedrock_output (str ''content'')) (\<lambda>xs.
           and_then (item0 xs) (\<lambda>x.
           and_then (get x (str ''text'') (JStr [])) loads))
         else and_then (holds_list bedrock_output (str ''results'')) (\<lambda>c3.
           if c3 then
             and_then (subscript bedrock_output (str ''results'')) (\<lambda>xs.
             and_then (item0 xs) (\<lambda>x.
             and_then (get x (str ''outputText'') (JStr [])) loads))
           else and_then (holds_list bedrock_output (str ''messages'')) (\<lambda>c4.
             if c4 then
               and_then (subscript bedrock_output (str ''messages'')) (\<lambda>xs.
               and_then (item0 xs) (\<lambda>m.
               and_then (get m (str ''content'') (JArr [JObj []])) (\<lambda>cs.
               and_then (item0 cs) (\<lambda>c.
               and_then (get c (str ''text'') (JStr [])) loads))))
             else Inr bedrock_output))))"

text \<open>
  The classification fields, lines 233-237. Each is whatever JSON value the model sent;
  the five \<open>get\<close> calls read the same object, so they succeed or fail together.
\<close>

record classification =
  ai_summary :: json
  is_real_threat :: json
  action_type :: json
  ai_handling_message :: json
  human_guidance_message :: json

definition extract_fields :: "json \<Rightarrow> error + classification" where
  "extract_fields parsed_content =
     and_then (get parsed_content (str ''summary'') (JStr (str ''No AI summary generated.''))) (\<lambda>a.
     and_then (get parsed_content (str ''is_real_threat'') (JBool False)) (\<lambda>b.
     and_then (get parsed_content (str ''action_type'') (JStr (str ''UNKNOWN''))) (\<lambda>c.
     and_then (get parsed_content (str ''ai_handling_message'') (JStr [])) (\<lambda>d.
     and_then (get parsed_content (str ''human_guidance_message'') (JStr [])) (\<lambda>e.
       Inr \<lparr>ai_summary = a, is_real_threat = b, action_type = c,
            ai_handling_message = d, human_guidance_message = e\<rparr>)))))"

text \<open>The extraction stage as a whole: raw response to classification fields.\<close>

definition extractor :: "pystr \<Rightarrow> error + classification" where
  "extractor result_raw =
     and_then (stage_a result_raw) (\<lambda>(bedrock_output, logged).
     and_then (stage_b bedrock_output) extract_fields)"

text \<open>The record of all documented defaults, and the one the handler starts from (lines 165-169).\<close>

definition default_fields :: classification where
  "default_fields =
     \<lparr>ai_summary = JStr (str ''No AI summary generated.''), is_real_threat = JBool False,
      action_type = JStr (str ''UNKNOWN''), ai_handling_message = JStr [],
      human_guidance_message = JStr []\<rparr>"

definition failure_fields :: classification where
  "failure_fields =
     \<lparr>ai_summary = JStr (str ''AI analysis unavailable at this time.''), is_real_threat = JBool False,
      action_type = JStr (str ''ERROR_BEDROCK_FAILED''), ai_handling_message = JStr [],
      human_guidance_message = JStr []\<rparr>"

section \<open>Formatted text and request payloads\<close>

text \<open>
  The alert the handler builds from one input line (lines 47-53). Severity, source and
  message are whatever JSON values the line holds.
\<close>

record alert =
  AlertID :: pystr
  Severity :: json
  Source :: json
  Message :: json
  ReceivedAt :: pystr

text \<open>
  The result of an f-string or of \<open>str.format\<close>: the literal parts of the source and the
  formatted values, in order. \<open>Fmt v\<close> is \<open>str(v)\<close>, which is the string itself for a
  \<open>str\<close>; \<open>Dumps a\<close> is \<open>json.dumps(a, indent=2)\<close> of an alert.
\<close>

datatype piece = Lit string | Fmt json | Dumps alert

type_synonym ftext = "piece list"

text \<open>The request payload: a Python value built from literals and the prompt text.\<close>

datatype pyval =
    PStr ftext
  | PInt int
  | PFloat string
  | PList "pyval list"
  | PDict "(string \<times> pyval) list"

text \<open>
  The prompt template of lines 57-102, before and behind \<open>{alert_message}\<close>, with the
  doubled braces of \<open>str.format\<close> written once.
\<close>

definition prompt_head :: string where
  \<open>prompt_head = concat
    [''\<newline>'',
     ''You are an expert security analyst assistant. Your task is to analyze security a'',
     ''lerts, summarize them, classify their nature (real threat vs. false positive), d'',
     ''etermine if they are addressable by an AI agent or require human intervention, a'',
     ''nd suggest appropriate actions.\<newline>'',
     ''\<newline>'',
     ''Analyze the following security alert:\<newline>'']\<close>

definition prompt_tail :: string where
  \<open>prompt_tail = concat
    [''\<newline>'',
     ''\<newline>'',
     ''Provide your analysis in a JSON format with the following keys. Ensure the outpu'',
     ''t is *only* the JSON object, without any additional text or markdown formatting '',
     ''(e.g., ```json or ```).\<newline>'',
     ''\<newline>'',
     ''- "summary": A one-sentence summary of the alert.\<newline>'',
     ''- "is_real_threat": boolean (true if it's a real, addressable threat, false othe'',
     ''rwise).\<newline>'',
     ''- "action_type": string ("AI_HANDLED", "HUMAN_REQUIRED", "FALSE_POSITIVE", "NON_'',
     ''ADDRESSABLE", "UNKNOWN").\<newline>'',
     ''    - "AI_HANDLED": The alert is a real threat and can be fully resolved by an A'',
     ''I agent.\<newline>'',
     ''    - "HUMAN_REQUIRED": The alert is a real threat but needs human review or act'',
     ''ion.\<newline>'',
     ''    - "FALSE_POSITIVE": The alert is not a real threat and can be ignored.'',
     ''\<newline>'',
     ''    - "NON_ADDRESSABLE": The alert is a real threat but is outside the scope of '',
     ''current automation or requires external action (e.g., vendor patch).\<newline>'',
     ''    - "UNKNOWN": If the AI cannot confidently classify or suggest an action.'',
     ''\<newline>'',
     ''- "ai_handling_message": string (If action_type is "AI_HANDLED", describe how an'',
     '' AI agent would handle it. Otherwise, an empty string).\<newline>'',
     ''- "human_guidance_message": string (If action_type is "HUMAN_REQUIRED", provide '',
     ''clear, actionable guidance for a human analyst. Otherwise, an empty string).'',
     ''\<newline>'',
     ''\<newline>'',
     ''Example for a real threat handled by AI:\<newline>'',
     ''{\<newline>'',
     ''    "summary": "Multiple login failures detected for a known bot account, which '',
     ''was automatically blocked.",\<newline>'',
     ''    "is_real_threat": true,\<newline>'',
     ''    "action_type": "AI_HANDLED",\<newline>'',
     ''    "ai_handling_message": "The AI agent automatically blocked the malicious IP '',
     ''address and locked the compromised account. No further action is required.",'',
     ''\<newline>'',
     ''    "human_guidance_message": ""\<newline>'',
     ''}\<newline>'',
     ''\<newline>'',
     ''Example for a real threat requiring human:\<newline>'',
     ''{\<newline>'',
     ''    "summary": "Malware detected on a critical production server requiring foren'',
     ''sic analysis.",\<newline>'',
     ''    "is_real_threat": true,\<newline>'',
     ''    "action_type": "HUMAN_REQUIRED",\<newline>'',
     ''    "ai_handling_message": "",\<newline>'',
     ''    "human_guidance_message": "Isolate the server immediately, initiate forensic'',
     '' imaging, and contact the incident response team for further investigation. Do n'',
     ''ot reboot."\<newline>'',
     ''}\<newline>'',
     ''\<newline>'',
     ''Example for a false positive:\<newline>'',
     ''{\<newline>'',
     ''    "summary": "Routine IT vulnerability scan detected as a port scan, confirmed'',
     '' as expected activity.",\<newline>'',
     ''    "is_real_threat": false,\<newline>'',
     ''    "action_type": "FALSE_POSITIVE",\<newline>'',
     ''    "ai_handling_message": "",\<newline>'',
     ''    "human_guidance_message": ""\<newline>'',
     ''}\<newline>'']\<close>

definition prompt_text :: "json \<Rightarrow> ftext" where
  "prompt_text message = [Lit prompt_head, Fmt message, Lit prompt_tail]"

section \<open>The model request adapter (lines 107-161)\<close>

definition is_claude3 :: "pystr \<Rightarrow> bool" where
  "is_claude3 model_id = startswith model_id (str ''anthropic.claude-3'')"

definition is_claude_legacy :: "pystr \<Rightarrow> bool" where
  "is_claude_legacy model_id \<longleftrightarrow>
     startswith model_id (str ''anthropic.claude-v2'') \<or>
     startswith model_id (str ''anthropic.claude-instant'')"

definition is_titan :: "pystr \<Rightarrow> bool" where
  "is_titan model_id = startswith model_id (str ''amazon.titan-text'')"

definition is_nova :: "pystr \<Rightarrow> bool" where
  "is_nova model_id = startswith model_id (str ''us.amazon.nova-lite'')"

definition bedrock_body :: "pystr \<Rightarrow> ftext \<Rightarrow> pyval" where
  "bedrock_body model_id prompt =
     (if is_claude3 model_id then
        PDict
          [(''anthropic_version'', PStr [Lit ''bedrock-2023-05-31'']),
           (''messages'',
              PList [PDict [(''role'', PStr [Lit ''user'']),
                            (''content'', PList [PDict [(''type'', PStr [Lit ''text'']),
                                                        (''text'', PStr prompt)]])]]),
           (''max_tokens'', PInt 500),
           (''temperature'', PFloat ''0.2''),
           (''top_p'', PFloat ''0.9'')]
      else if is_claude_legacy model_id then
        PDict
          [(''prompt'',
              PStr ([Lit ''\<newline>\<newline>Human: ''] @ prompt @ [Lit ''\<newline>\<newline>Assistant:''])),
           (''max_tokens_to_sample'', PInt 500),
           (''temperature'', PFloat ''0.2''),
           (''top_p'', PFloat ''0.9'')]
      else if is_titan model_id then
        PDict
          [(''inputText'', PStr prompt),
           (''textGenerationConfig'',
              PDict [(''maxTokenCount'', PInt 500),
                     (''temperature'', PFloat ''0.2''),
                     (''topP'', PFloat ''0.9'')])]
      else if is_nova model_id then
        PDict
          [(''messages'',
              PList [PDict [(''role'', PStr [Lit ''user'']),
                            (''content'', PList [PDict [(''text'', PStr prompt)]])]]),
           (''inferenceConfig'',
              PDict [(''maxTokens'', PInt 150),
                     (''temperature'', PFloat ''0.7''),
                     (''topP'', PFloat ''0.9'')])]
      else
        PDict
          [(''messages'',
              PList [PDict [(''role'', PStr [Lit ''user'']),
                            (''content'', PList [PDict [(''type'', PStr [Lit ''text'']),
                                                        (''text'', PStr prompt)]])]]),
           (''inferenceConfig'',
              PDict [(''maxTokens'', PInt 500),
                     (''temperature'', PFloat ''0.2''),
                     (''topP'', PFloat ''0.9'')])])"

text \<open>Reading a payload: \<open>v[k]\<close> on a dict, \<open>v[i]\<close> on a list, a path of both, the key set.\<close>

datatype step = Key string | Idx nat

fun at :: "pyval \<Rightarrow> step list \<Rightarrow> pyval option" where
  "at v [] = Some v"
| "at (PDict d) (Key k # p) = (case map_of d k of None \<Rightarrow> None | Some w \<Rightarrow> at w p)"
| "at (PList xs) (Idx i # p) = (if i < length xs then at (xs ! i) p else None)"
| "at _ _ = None"

definition keys :: "pyval \<Rightarrow> string set" where
  "keys v = (case v of PDict d \<Rightarrow> fst ` set d | _ \<Rightarrow> {})"

section \<open>Configuration, collaborators and effects\<close>

text \<open>
  The environment variables the module reads (lines 12-17); \<open>None\<close> is an unset variable.
\<close>

record config =
  BEDROCK_MODEL_ID :: "pystr option"
  ENV :: "pystr option"
  SNS_TOPIC_ARN :: "pystr option"
  DDB_TABLE :: "pystr option"

definition MODEL_ID :: "config \<Rightarrow> pystr" where
  "MODEL_ID cfg =
     (case BEDROCK_MODEL_ID cfg of None \<Rightarrow> str ''us.amazon.nova-lite-v1:0'' | Some m \<Rightarrow> m)"

text \<open>
  \<open>inference_metadata\<close>: model, timestamp and raw response after a successful analysis
  (lines 240-244), or only the error (line 248, with \<open>str(e)\<close> kept as the exception).
\<close>

datatype metadata = Success pystr pystr pystr | Failure error

text \<open>The item written to the table (lines 252-272): the alert and the analysis.\<close>

record item = alert +
  AISummary :: json
  IsRealThreat :: json
  ActionType :: json
  AIHandlingMessage :: json
  HumanGuidanceMessage :: json
  Status :: string
  ProcessedBy :: string
  Environment :: pystr
  ModelUsed :: pystr
  InferenceTimestamp :: "pystr option"
  Metadata :: metadata

text \<open>
  The outside world, indexed by the number of the input line being processed: the clock
  at the three places the handler reads it, the inference call with the decoding of its
  body (lines 173-180), the table write and the topic publish. A collaborator returns its
  result or the exception it raises.
\<close>

record env =
  now_id :: "nat \<Rightarrow> pystr"
  now_received :: "nat \<Rightarrow> pystr"
  now_inference :: "nat \<Rightarrow> pystr"
  invoke_model :: "nat \<Rightarrow> pystr \<Rightarrow> pyval \<Rightarrow> error + pystr"
  put_item :: "nat \<Rightarrow> pystr option \<Rightarrow> item \<Rightarrow> error option"
  publish :: "nat \<Rightarrow> pystr option \<Rightarrow> ftext \<Rightarrow> ftext \<Rightarrow> error option"

text \<open>
  What the handler does to the outside, in order: the calls to the two downstream
  collaborators and the log records at warning and error level (info records are left out).
\<close>

datatype log =
    AlertFileNotFound
  | UnknownModelPrefix pystr
  | ExtractFailed pystr
  | AnalysisFailed error
  | MalformedLine pystr
  | UnexpectedError pystr error

datatype event =
    Log log
  | PutItem "pystr option" item
  | Publish "pystr option" ftext ftext

section \<open>The handler (lines 24-323)\<close>

definition build_alert :: "env \<Rightarrow> nat \<Rightarrow> json \<Rightarrow> error + alert" where
  "build_alert e i alert_data =
     and_then (get alert_data (str ''Severity'') (JStr (str ''Low''))) (\<lambda>sev.
     and_then (get alert_data (str ''Source'') (JStr (str ''Unknown''))) (\<lambda>src.
     and_then (get alert_data (str ''Message'') (JStr [])) (\<lambda>msg.
       Inr \<lparr>AlertID = str ''ALERT-'' @ now_id e i, Severity = sev, Source = src,
            Message = msg, ReceivedAt = now_received e i\<rparr>)))"

text \<open>
  Lines 164-248: the analysis of one alert. Every exception between the inference call
  and the field extraction reaches the handler of line 246, which leaves the fields at
  the values of lines 165-169 and stores the error.
\<close>

definition analyse :: "config \<Rightarrow> env \<Rightarrow> nat \<Rightarrow> pyval \<Rightarrow> classification \<times> metadata \<times> event list" where
  "analyse cfg e i body =
     (case invoke_model e i (MODEL_ID cfg) body of
        Inl err \<Rightarrow> (failure_fields, Failure err, [Log (AnalysisFailed err)])
      | Inr result_raw \<Rightarrow>
          (let logs = (case stage_a result_raw of
                         Inr (_, True) \<Rightarrow> [Log (ExtractFailed result_raw)]
                       | _ \<Rightarrow> [])
           in case extractor result_raw of
                Inl err \<Rightarrow> (failure_fields, Failure err, logs @ [Log (AnalysisFailed err)])
              | Inr c \<Rightarrow>
                  (c, Success (MODEL_ID cfg) (now_inference e i) result_raw, logs)))"

definition make_item :: "config \<Rightarrow> alert \<Rightarrow> classification \<Rightarrow> metadata \<Rightarrow> item" where
  "make_item cfg a c m =
     \<lparr>AlertID = AlertID a, Severity = Severity a, Source = Source a, Message = Message a,
      ReceivedAt = ReceivedAt a,
      AISummary = ai_summary c, IsRealThreat = is_real_threat c, ActionType = action_type c,
      AIHandlingMessage = ai_handling_message c,
      HumanGuidanceMessage = human_guidance_message c,
      Status = ''Open'', ProcessedBy = ''UASO_Lambda'',
      Environment = (case ENV cfg of None \<Rightarrow> str ''Hackathon'' | Some v \<Rightarrow> v),
      ModelUsed = (case m of Success model _ _ \<Rightarrow> model | Failure _ \<Rightarrow> str ''unknown''),
      InferenceTimestamp = (case m of Success _ t _ \<Rightarrow> Some t | Failure _ \<Rightarrow> None),
      Metadata = m\<rparr>"

text \<open>Lines 275-296: subject and body of the notification.\<close>

definition sns_subject :: "alert \<Rightarrow> classification \<Rightarrow> ftext" where
  "sns_subject a c =
     [Lit (if action_type c = JStr (str ''AI_HANDLED'') then ''[UASO Alert - AI Handled] ''
           else if action_type c = JStr (str ''HUMAN_REQUIRED'') then ''[UASO Alert - Human Required] ''
           else if action_type c = JStr (str ''FALSE_POSITIVE'') then ''[UASO Alert - False Positive] ''
           else if action_type c = JStr (str ''NON_ADDRESSABLE'') then ''[UASO Alert - Non-Addressable] ''
           else ''[UASO Alert - Action Unknown] ''),
      Fmt (Severity a), Lit '' - '', Fmt (Source a)]"

definition sns_message_body :: "alert \<Rightarrow> classification \<Rightarrow> ftext" where
  "sns_message_body a c =
     [Lit ''Alert Summary: '', Fmt (ai_summary c), Lit ''\<newline>\<newline>''] @
     (if action_type c = JStr (str ''AI_HANDLED'') then
        [Lit ''AI Agent Action: '', Fmt (ai_handling_message c), Lit ''\<newline>'',
         Lit ''This threat has been automatically addressed by the AI agent. No human intervention needed.'']
      else if action_type c = JStr (str ''HUMAN_REQUIRED'') then
        [Lit ''Human Guidance: '', Fmt (human_guidance_message c), Lit ''\<newline>'',
         Lit ''Immediate human intervention is required for this threat. Please follow the guidance above.'']
      else if action_type c = JStr (str ''FALSE_POSITIVE'') then
        [Lit ''This alert has been classified as a false positive and requires no action. No human intervention needed.'']
      else if action_type c = JStr (str ''NON_ADDRESSABLE'') then
        [Lit ''This alert is a real threat but is currently outside the scope of automated handling or requires external action. Manual review is recommended.'']
      else
        [Lit ''The AI could not confidently determine the appropriate action for this alert. Manual review is highly recommended.'']) @
     [Lit ''\<newline>\<newline>Full Alert Details:\<newline>'', Dumps a]"

text \<open>The warning of line 151, logged when no prefix of lines 108-137 matches.\<close>

definition model_warning :: "config \<Rightarrow> event list" where
  "model_warning cfg =
     (if is_claude3 (MODEL_ID cfg) \<or> is_claude_legacy (MODEL_ID cfg) \<or>
         is_titan (MODEL_ID cfg) \<or> is_nova (MODEL_ID cfg)
      then [] else [Log (UnknownModelPrefix (MODEL_ID cfg))])"

text \<open>One entry of \<open>processed_alerts_summary\<close> (lines 305-310).\<close>

record processed =
  p_AlertID :: pystr
  p_summary :: json
  p_action_type :: json
  p_is_real_threat :: json

text \<open>
  The body of the loop for line \<open>i\<close> (lines 43-315): the effects, and the summary entry
  when the line was processed to the end. The two \<open>except\<close> clauses of lines 312-315
  catch whatever leaves the body, log it, and let the loop go on.
\<close>

definition process_line :: "config \<Rightarrow> env \<Rightarrow> nat \<Rightarrow> pystr \<Rightarrow> event list \<times> processed option" where
  "process_line cfg e i line =
     (case json_loads (strip line) of
        None \<Rightarrow> ([Log (MalformedLine (strip line))], None)
      | Some alert_data \<Rightarrow>
          (case build_alert e i alert_data of
             Inl err \<Rightarrow> ([Log (UnexpectedError (strip line) err)], None)
           | Inr a \<Rightarrow>
               (let body = bedrock_body (MODEL_ID cfg) (prompt_text (Message a));
                    warn = model_warning cfg;
                    (c, m, logs) = analyse cfg e i body;
                    it = make_item cfg a c m;
                    stored = warn @ logs @ [PutItem (DDB_TABLE cfg) it]
                in case put_item e i (DDB_TABLE cfg) it of
                     Some err \<Rightarrow> (stored @ [Log (UnexpectedError (strip line) err)], None)
                   | None \<Rightarrow>
                       (let sent = stored @
                              [Publish (SNS_TOPIC_ARN cfg) (sns_subject a c) (sns_message_body a c)]
                        in case publish e i (SNS_TOPIC_ARN cfg) (sns_subject a c)
                                  (sns_message_body a c) of
                             Some err \<Rightarrow> (sent @ [Log (UnexpectedError (strip line) err)], None)
                           | None \<Rightarrow>
                               (sent,
                                Some \<lparr>p_AlertID = AlertID a, p_summary = ai_summary c,
                                      p_action_type = action_type c,
                                      p_is_real_threat = is_real_threat c\<rparr>)))))"

text \<open>The loop over the lines of the file, from line number \<open>i\<close> on.\<close>

fun process_lines :: "config \<Rightarrow> env \<Rightarrow> nat \<Rightarrow> pystr list \<Rightarrow> event list \<times> processed list" where
  "process_lines cfg e i [] = ([], [])"
| "process_lines cfg e i (line # rest) =
     (let (evs, p) = process_line cfg e i line;
          (evs', ps) = process_lines cfg e (Suc i) rest
      in (evs @ evs', (case p of None \<Rightarrow> [] | Some x \<Rightarrow> [x]) @ ps))"

text \<open>
  The alert file as the handler finds it: absent, present but failing to open (the
  \<open>open\<close> of line 41 is outside every \<open>try\<close>), or its lines.
\<close>

datatype alert_file = Missing | Unreadable error | Lines "pystr list"

record response =
  statusCode :: nat
  message :: ftext
  processed_alerts :: "processed list option"

definition lambda_handler :: "config \<Rightarrow> env \<Rightarrow> alert_file \<Rightarrow> (error + response) \<times> event list" where
  "lambda_handler cfg e file =
     (case file of
        Missing \<Rightarrow>
          (Inr \<lparr>statusCode = 404,
                message = [Lit ''Alert file 'alerts_sample.txt' not found. Please ensure it's in the deployment package.''],
                processed_alerts = None\<rparr>,
           [Log AlertFileNotFound])
      | Unreadable err \<Rightarrow> (Inl err, [])
      | Lines ls \<Rightarrow>
          (let (evs, ps) = process_lines cfg e 0 ls
           in (Inr \<lparr>statusCode = 200,
                    message = [Lit ''Successfully processed '', Fmt (JInt (int (length ps))),
                               Lit '' alerts from 'alerts_sample.txt'.''],
                    processed_alerts = Some ps\<rparr>,
               evs)))"

section \<open>Inputs used in the statements\<close>

text \<open>
  \<open>json.dumps\<close> of a string without control characters: quotes and backslashes escaped,
  the whole in quotes.
\<close>

definition escape_char :: "int \<Rightarrow> pystr" where
  "escape_char c = (if c = 34 then [92, 34] else if c = 92 then [92, 92] else [c])"

definition json_quote :: "pystr \<Rightarrow> pystr" where
  "json_quote s = 34 # concat (map escape_char s) @ [34]"

definition sample_response :: pystr where
  \<open>sample_response =
     str ''{"summary":"s","is_real_threat":true,"action_type":"AI_HANDLED","ai_handling_message":"m","human_guidance_message":""}''\<close>

definition sample_fields :: classification where
  "sample_fields =
     \<lparr>ai_summary = JStr (str ''s''), is_real_threat = JBool True,
      action_type = JStr (str ''AI_HANDLED''), ai_handling_message = JStr (str ''m''),
      human_guidance_message = JStr []\<rparr>"

text \<open>
  A bracket pair: some \<open>{\<close> with a \<open>}\<close> somewhere behind it (equivalently, behind the
  first \<open>{\<close>).
\<close>

fun bracket_pair :: "pystr \<Rightarrow> bool" where
  "bracket_pair [] = False"
| "bracket_pair (c # s) = (if c = 123 then 125 \<in> set s else bracket_pair s)"


text \<open>A configuration with no variable set, and collaborators that succeed.\<close>

definition cfg_default :: config where
  "cfg_default = \<lparr>BEDROCK_MODEL_ID = None, ENV = None, SNS_TOPIC_ARN = None, DDB_TABLE = None\<rparr>"

definition env_returning :: "pystr \<Rightarrow> env" where
  "env_returning raw =
     \<lparr>now_id = (\<lambda>i. str ''20250101000000000000''),
      now_received = (\<lambda>i. str ''2025-01-01T00:00:00.000000''),
      now_inference = (\<lambda>i. str ''2025-01-01T00:00:01.000000''),
      invoke_model = (\<lambda>i m b. Inr raw),
      put_item = (\<lambda>i t x. None),
      publish = (\<lambda>i t s b. None)\<rparr>"

text \<open>
  Stage B as the specification words it (4.4): the inner text of the first family shape
  the object matches, where a shape matches when the key holds a JSON-encoded string
  (\<open>completion\<close>) or a non-empty sequence whose first element has the text field; an
  unmatched shape falls through, and with no match the object itself is the classification.
\<close>

definition first_field :: "json \<Rightarrow> pystr \<Rightarrow> json option" where
  "first_field x f =
     (case x of
        JArr (JObj o1 # _) \<Rightarrow> map_of o1 f
      | _ \<Rightarrow> None)"

definition spec_shape_text :: "dict \<Rightarrow> json option" where
  "spec_shape_text d =
     (case map_of d (str ''completion'') of
        Some (JStr t) \<Rightarrow> Some (JStr t)
      | _ \<Rightarrow>
     (case Option.bind (map_of d (str ''content'')) (\<lambda>x. first_field x (str ''text'')) of
        Some t \<Rightarrow> Some t
      | None \<Rightarrow>
     (case Option.bind (map_of d (str ''results'')) (\<lambda>x. first_field x (str ''outputText'')) of
        Some t \<Rightarrow> Some t
      | None \<Rightarrow>
     (case Option.bind (map_of d (str ''messages'')) (\<lambda>x.
             Option.bind (first_field x (str ''content'')) (\<lambda>y. first_field y (str ''text''))) of
        Some t \<Rightarrow> Some t
      | None \<Rightarrow> None))))"

definition spec_stage_b :: "dict \<Rightarrow> error + json" where
  "spec_stage_b d = (case spec_shape_text d of Some t \<Rightarrow> loads t | None \<Rightarrow> Inr (JObj d))"

text \<open>
  The pieces of Stage B as the handler has it: the list a key holds, if it holds one; the
  reading of the first element's text field (lines 218-219, 221-222); the reading of
  \<open>messages\<close> (lines 225-226).
\<close>

definition list_at :: "dict \<Rightarrow> pystr \<Rightarrow> json list option" where
  "list_at d k = (case map_of d k of Some (JArr xs) \<Rightarrow> Some xs | _ \<Rightarrow> None)"

definition unwrap :: "json list \<Rightarrow> pystr \<Rightarrow> error + json" where
  "unwrap xs f = and_then (item0 (JArr xs)) (\<lambda>x. and_then (get x f (JStr [])) loads)"

definition unwrap_messages :: "json list \<Rightarrow> error + json" where
  "unwrap_messages xs =
     and_then (item0 (JArr xs)) (\<lambda>m.
     and_then (get m (str ''content'') (JArr [JObj []])) (\<lambda>cs.
     and_then (item0 cs) (\<lambda>c.
     and_then (get c (str ''text'') (JStr [])) loads)))"

text \<open>
  The generation budget and the temperature a payload asks for, under whichever key its
  family uses.
\<close>

definition generation_budget :: "pyval \<Rightarrow> int option" where
  "generation_budget b =
     (case at b [Key ''max_tokens''] of
        Some (PInt n) \<Rightarrow> Some n
      | _ \<Rightarrow>
     (case at b [Key ''max_tokens_to_sample''] of
        Some (PInt n) \<Rightarrow> Some n
      | _ \<Rightarrow>
     (case at b [Key ''textGenerationConfig'', Key ''maxTokenCount''] of
        Some (PInt n) \<Rightarrow> Some n
      | _ \<Rightarrow>
     (case at b [Key ''inferenceConfig'', Key ''maxTokens''] of
        Some (PInt n) \<Rightarrow> Some n
      | _ \<Rightarrow> None))))"

definition temperature_of :: "pyval \<Rightarrow> string option" where
  "temperature_of b =
     (case at b [Key ''temperature''] of
        Some (PFloat x) \<Rightarrow> Some x
      | _ \<Rightarrow>
     (case at b [Key ''textGenerationConfig'', Key ''temperature''] of
        Some (PFloat x) \<Rightarrow> Some x
      | _ \<Rightarrow>
     (case at b [Key ''inferenceConfig'', Key ''temperature''] of
        Some (PFloat x) \<Rightarrow> Some x
      | _ \<Rightarrow> None)))"

text \<open>Kinds of events, and the request the handler sends for an alert.\<close>

definition is_put :: "event \<Rightarrow> bool" where
  "is_put ev = (case ev of PutItem _ _ \<Rightarrow> True | _ \<Rightarrow> False)"

definition is_publish :: "event \<Rightarrow> bool" where
  "is_publish ev = (case ev of Publish _ _ _ \<Rightarrow> True | _ \<Rightarrow> False)"

definition is_log :: "event \<Rightarrow> bool" where
  "is_log ev = (case ev of Log _ \<Rightarrow> True | _ \<Rightarrow> False)"

definition request_for :: "config \<Rightarrow> alert \<Rightarrow> pyval" where
  "request_for cfg a = bedrock_body (MODEL_ID cfg) (prompt_text (Message a))"

text \<open>
  Three input lines, and collaborators that fail: the inference call for the second line,
  the table write for the first line.
\<close>

definition alert_line_1 :: pystr where
  \<open>alert_line_1 = str ''{"Severity": "High", "Source": "IDS", "Message": "port scan"}\<newline>''\<close>

definition alert_line_2 :: pystr where
  \<open>alert_line_2 = str ''{"Severity": "Low", "Source": "WAF", "Message": "sql injection"}\<newline>''\<close>

definition alert_line_3 :: pystr where
  \<open>alert_line_3 = str ''{"Source": "EDR", "Message": "malware"}\<newline>''\<close>

definition env_second_fails :: env where
  "env_second_fails =
     (env_returning sample_response)
       \<lparr>invoke_model := (\<lambda>i m b. if i = 1 then Inl (ClientError 500) else Inr sample_response)\<rparr>"

definition env_put_fails :: env where
  "env_put_fails =
     (env_returning sample_response)
       \<lparr>put_item := (\<lambda>i t x. if i = 0 then Some (ClientError 503) else None)\<rparr>"

definition alert_2 :: alert where
  "alert_2 =
     \<lparr>AlertID = str ''ALERT-20250101000000000000'', Severity = JStr (str ''Low''),
      Source = JStr (str ''WAF''), Message = JStr (str ''sql injection''),
      ReceivedAt = str ''2025-01-01T00:00:00.000000''\<rparr>"

section \<open>The round trip of the sample response\<close>

lemma sample_bare: "extractor sample_response = Inr sample_fields"
  by code_simp

lemma sample_completion:
  \<open>extractor (str ''{"completion": '' @ json_quote sample_response @ str ''}'') = Inr sample_fields\<close>
  by code_simp

lemma sample_content:
  \<open>extractor (str ''{"content":[{"text": '' @ json_quote sample_response @ str ''}]}'') =
     Inr sample_fields\<close>
  by code_simp

lemma sample_results:
  \<open>extractor (str ''{"results":[{"outputText": '' @ json_quote sample_response @ str ''}]}'') =
     Inr sample_fields\<close>
  by code_simp

lemma sample_messages:
  \<open>extractor (str ''{"messages":[{"content":[{"text": '' @ json_quote sample_response @ str ''}]}]}'') =
     Inr sample_fields\<close>
  by code_simp

text \<open>
  Claim C1. The sample response
  \<open>{"summary":"s","is_real_threat":true,"action_type":"AI_HANDLED","ai_handling_message":"m","human_guidance_message":""}\<close>
  extracts to the record with exactly those five values, bare and inside each of the four
  family envelopes, where the envelope holds the response as a JSON string.
\<close>

theorem C1_round_trip:
  \<open>extractor sample_response = Inr sample_fields \<and>
   extractor (str ''{"completion": '' @ json_quote sample_response @ str ''}'') = Inr sample_fields \<and>
   extractor (str ''{"content":[{"text": '' @ json_quote sample_response @ str ''}]}'') =
     Inr sample_fields \<and>
   extractor (str ''{"results":[{"outputText": '' @ json_quote sample_response @ str ''}]}'') =
     Inr sample_fields \<and>
   extractor (str ''{"messages":[{"content":[{"text": '' @ json_quote sample_response @ str ''}]}]}'') =
     Inr sample_fields\<close>
  using sample_bare sample_completion sample_content sample_results sample_messages
  by blast

section \<open>Strings: searching and trimming\<close>

lemma find_notin: "c \<notin> set s \<Longrightarrow> find s c = -1"
  by (induction s) auto

lemma find_nonneg: "c \<in> set s \<Longrightarrow> 0 \<le> find s c"
  by (induction s) (auto simp: Let_def)

lemma find_split: "c \<notin> set a \<Longrightarrow> find (a @ c # b) c = int (length a)"
  by (induction a) (auto simp: Let_def)

lemma rfind_notin: "c \<notin> set s \<Longrightarrow> rfind s c = -1"
  by (simp add: rfind_def find_notin)

lemma rfind_split: "c \<notin> set b \<Longrightarrow> rfind (a @ c # b) c = int (length a)"
  using find_split [of c "rev b" "rev a"] by (simp add: rfind_def Let_def)

lemma bracket_pair_split: "123 \<notin> set a \<Longrightarrow> bracket_pair (a @ 123 # b) = (125 \<in> set b)"
  by (induction a) auto

lemma bracket_pair_notin: "123 \<notin> set a \<Longrightarrow> \<not> bracket_pair a"
  by (induction a) auto

lemma bracket_pair_iff: "bracket_pair s \<longleftrightarrow> (\<exists>a b c. s = a @ 123 # b @ 125 # c)"
proof
  assume "bracket_pair s"
  then have "123 \<in> set s" using bracket_pair_notin by blast
  then obtain a r where s: "s = a @ 123 # r" "123 \<notin> set a" by (meson split_list_first)
  with \<open>bracket_pair s\<close> have "125 \<in> set r" by (simp add: bracket_pair_split)
  then obtain b c where "r = b @ 125 # c" by (meson split_list)
  with s show "\<exists>a b c. s = a @ 123 # b @ 125 # c" by blast
next
  assume "\<exists>a b c. s = a @ 123 # b @ 125 # c"
  then obtain a b c where s: "s = a @ 123 # b @ 125 # c" by blast
  have "123 \<in> set s" using s by simp
  then obtain a' r where s': "s = a' @ 123 # r" "123 \<notin> set a'" by (meson split_list_first)
  have "125 \<in> set r"
  proof -
    have "length a' \<le> length a"
    proof (rule ccontr)
      assume "\<not> length a' \<le> length a"
      then have "length a < length a'" by simp
      then have "a' ! length a = s ! length a" using s' by (simp add: nth_append)
      also have "\<dots> = 123" using s by (simp add: nth_append)
      finally show False using s'(2) \<open>length a < length a'\<close> by (metis nth_mem)
    qed
    then have "drop (length a') s = drop (length a') a @ 123 # b @ 125 # c" using s by simp
    moreover have "drop (length a') s = 123 # r" using s' by simp
    ultimately have "123 # r = drop (length a') a @ 123 # b @ 125 # c" by simp
    then have "125 \<in> set (123 # r)" by simp
    then show ?thesis by simp
  qed
  with s' show "bracket_pair s" by (simp add: bracket_pair_split)
qed

lemma no_pair_indices:
  assumes "\<not> bracket_pair s"
  shows "find s 123 = -1 \<or> rfind s 125 = -1 \<or> rfind s 125 \<le> find s 123"
proof (cases "123 \<in> set s \<and> 125 \<in> set s")
  case False
  then show ?thesis using find_notin rfind_notin by blast
next
  case True
  then obtain a r where s: "s = a @ 123 # r" "123 \<notin> set a" by (meson split_list_first)
  from True obtain u v where s2: "s = u @ 125 # v" "125 \<notin> set v" by (meson split_list_last)
  have f: "find s 123 = int (length a)" using s by (simp add: find_split)
  have g: "rfind s 125 = int (length u)" using s2 by (simp add: rfind_split)
  have "125 \<notin> set r" using assms s by (simp add: bracket_pair_split)
  have "length u \<le> length a"
  proof (rule ccontr)
    assume "\<not> length u \<le> length a"
    then have lt: "length a < length u" by simp
    have "s ! length u = 125" using s2 by (simp add: nth_append)
    moreover have "s ! length u = (123 # r) ! (length u - length a)"
      using s lt by (simp add: nth_append)
    moreover have "(123 # r) ! (length u - length a) = r ! (length u - length a - 1)"
      using lt by (simp add: nth_Cons')
    moreover have "length u - length a - 1 < length r"
    proof -
      have "length s = length u + 1 + length v" using s2 by simp
      moreover have "length s = length a + 1 + length r" using s by simp
      ultimately show ?thesis using lt by linarith
    qed
    ultimately have "125 \<in> set r" by (metis nth_mem)
    with \<open>125 \<notin> set r\<close> show False by simp
  qed
  with f g show ?thesis by simp
qed

lemma startswith_one: "startswith s [c] \<longleftrightarrow> s \<noteq> [] \<and> hd s = c"
  by (cases s) (auto simp: startswith_def)

lemma endswith_one: "endswith s [c] \<longleftrightarrow> s \<noteq> [] \<and> last s = c"
proof (cases s rule: rev_cases)
  case Nil
  then show ?thesis by (simp add: endswith_def)
next
  case (snoc xs x)
  then show ?thesis by (auto simp: endswith_def)
qed

lemma lstrip_decomp: "s = takeWhile isspace s @ lstrip s"
  by (simp add: lstrip_def)

lemma rstrip_decomp: "s = rstrip s @ rev (takeWhile isspace (rev s))"
  unfolding rstrip_def by (metis rev_append rev_rev_ident takeWhile_dropWhile_id)

lemma strip_decomp: "\<exists>w1 w2. s = w1 @ strip s @ w2"
proof -
  have "s = takeWhile isspace s @ lstrip s" by (rule lstrip_decomp)
  moreover have "lstrip s = strip s @ rev (takeWhile isspace (rev (lstrip s)))"
    unfolding strip_def by (rule rstrip_decomp)
  ultimately have "s = takeWhile isspace s @ strip s @ rev (takeWhile isspace (rev (lstrip s)))"
    by simp
  then show ?thesis by blast
qed

lemma braces_give_pair:
  assumes "startswith t [123]" and "endswith t [125]"
  shows "\<exists>b. t = 123 # b @ [125]"
proof -
  from assms(1) obtain m where t: "t = 123 # m" by (cases t) (auto simp: startswith_one)
  from assms(2) have "last t = 125" "t \<noteq> []" by (auto simp: endswith_one)
  with t have "m \<noteq> []" by (cases m) auto
  with t \<open>last t = 125\<close> have "last m = 125" by simp
  with \<open>m \<noteq> []\<close> have "m = butlast m @ [125]" by (metis append_butlast_last_id)
  with t show ?thesis by blast
qed

lemma direct_gives_pair:
  assumes "startswith (strip s) [123]" and "endswith (strip s) [125]"
  shows "bracket_pair s"
proof -
  from braces_give_pair [OF assms] obtain b where "strip s = 123 # b @ [125]" by blast
  moreover obtain w1 w2 where "s = w1 @ strip s @ w2" using strip_decomp by blast
  ultimately have "s = w1 @ 123 # b @ 125 # w2" by simp
  then show ?thesis unfolding bracket_pair_iff by blast
qed


lemma not_isspace_brace [simp]: "\<not> isspace 123" "\<not> isspace 125"
  by (simp_all add: isspace_def)








section \<open>The extraction stage\<close>

lemma stage_a_no_pair: "\<not> bracket_pair raw \<Longrightarrow> stage_a raw = Inr (JObj [], True)"
  using direct_gives_pair [of raw] no_pair_indices [of raw]
  by (auto simp: stage_a_def Let_def)

lemma stage_b_empty: "stage_b (JObj []) = Inr (JObj [])"
  by (simp add: stage_b_def py_in_def holds_list_def and_then_def)

lemma extract_fields_empty: "extract_fields (JObj []) = Inr default_fields"
  by (simp add: extract_fields_def get_def and_then_def default_fields_def)

text \<open>
  Claim C6. A raw response with no bracket pair extracts to the record of all documented
  defaults (summary \<open>No AI summary generated.\<close>, threat flag false, action type
  \<open>UNKNOWN\<close>, both messages empty); the stage returns a value, no exception.
\<close>

theorem C6_no_bracket_pair:
  "\<not> bracket_pair raw \<Longrightarrow> extractor raw = Inr default_fields"
  by (simp add: extractor_def stage_a_no_pair stage_b_empty extract_fields_empty and_then_def)

theorem C6_witness:
  "\<not> bracket_pair (str ''no json here } {'') \<and> extractor (str ''no json here } {'') = Inr default_fields"
  using C6_no_bracket_pair [of "str ''no json here } {''"] by simp

lemma stage_a_direct_fail:
  assumes "startswith (strip raw) (str ''{'')" and "endswith (strip raw) (str ''}'')"
    and "json_loads raw = None"
  shows "stage_a raw = Inl JSONDecodeError"
  using assms by (simp add: stage_a_def)

lemma extractor_direct_fail:
  assumes "startswith (strip raw) (str ''{'')" and "endswith (strip raw) (str ''}'')"
    and "json_loads raw = None"
  shows "extractor raw = Inl JSONDecodeError"
  using assms by (simp add: extractor_def stage_a_def and_then_def)

lemma failure_not_default: "failure_fields \<noteq> default_fields"
  by (simp add: failure_fields_def default_fields_def)

text \<open>
  Claim C9. A raw response whose trimmed text starts with \<open>{\<close> and ends with \<open>}\<close> but
  that \<open>json.loads\<close> rejects does not degrade to the all-default record: the exception of
  the direct parse reaches the handler of line 246, the record keeps the inference-failure
  defaults with action type \<open>ERROR_BEDROCK_FAILED\<close>, the metadata hold only the error,
  and the bracket-substring branch is not entered (nothing is logged by it).
\<close>

theorem C9_direct_parse_failure:
  assumes "startswith (strip raw) (str ''{'')" and "endswith (strip raw) (str ''}'')"
    and "json_loads raw = None"
    and "invoke_model e i (MODEL_ID cfg) body = Inr raw"
  shows "extractor raw = Inl JSONDecodeError \<and>
         analyse cfg e i body =
           (failure_fields, Failure JSONDecodeError, [Log (AnalysisFailed JSONDecodeError)]) \<and>
         ai_summary failure_fields = JStr (str ''AI analysis unavailable at this time.'') \<and>
         action_type failure_fields = JStr (str ''ERROR_BEDROCK_FAILED'') \<and>
         failure_fields \<noteq> default_fields"
proof -
  have a: "stage_a raw = Inl JSONDecodeError" using assms(1-3) by (simp add: stage_a_def)
  have x: "extractor raw = Inl JSONDecodeError" using assms(1-3) by (rule extractor_direct_fail)
  have "analyse cfg e i body =
      (failure_fields, Failure JSONDecodeError, [Log (AnalysisFailed JSONDecodeError)])"
    by (simp add: analyse_def assms(4) a x)
  then show ?thesis using x failure_not_default by (simp add: failure_fields_def)
qed







lemma c9_input_rejected: \<open>json_loads (str ''{"summary": }'') = None\<close>
  by code_simp

theorem C9_witness:
  \<open>startswith (strip (str ''{"summary": }'')) (str ''{'') \<and>
   endswith (strip (str ''{"summary": }'')) (str ''}'') \<and>
   json_loads (str ''{"summary": }'') = None \<and>
   extractor (str ''{"summary": }'') = Inl JSONDecodeError \<and>
   analyse cfg_default (env_returning (str ''{"summary": }'')) 0 (PInt 0) =
     (failure_fields, Failure JSONDecodeError, [Log (AnalysisFailed JSONDecodeError)])\<close>
proof -
  have h1: \<open>startswith (strip (str ''{"summary": }'')) (str ''{'')\<close> by code_simp
  have h2: \<open>endswith (strip (str ''{"summary": }'')) (str ''}'')\<close> by code_simp
  have h4: \<open>invoke_model (env_returning (str ''{"summary": }'')) 0 (MODEL_ID cfg_default) (PInt 0) =
      Inr (str ''{"summary": }'')\<close>
    by (simp add: env_returning_def)
  show ?thesis
    using C9_direct_parse_failure [OF h1 h2 c9_input_rejected h4] h1 h2 c9_input_rejected
    by blast
qed



section \<open>Stage B on a dict\<close>

lemma py_in_dict: "py_in k (JObj d) = Inr (map_of d k \<noteq> None)"
  by (simp add: py_in_def map_of_eq_None_iff)

lemma holds_list_dict:
  "holds_list (JObj d) k = Inr (case map_of d k of Some (JArr _) \<Rightarrow> True | _ \<Rightarrow> False)"
  by (auto simp: holds_list_def py_in_dict and_then_def subscript_def isinstance_list_def
      split: option.splits json.splits)


lemma subscript_dict: "map_of d k = Some v \<Longrightarrow> subscript (JObj d) k = Inr v"
  by (simp add: subscript_def)

lemma and_then_Inr: "and_then (Inr x) f = f x"
  by (simp add: and_then_def)

lemma and_then_Inl: "and_then (Inl e) f = Inl e"
  by (simp add: and_then_def)

lemma holds_list_at: "holds_list (JObj d) k = Inr (list_at d k \<noteq> None)"
  by (simp add: holds_list_dict list_at_def split: option.splits json.splits)

lemma subscript_list_at: "list_at d k = Some xs \<Longrightarrow> subscript (JObj d) k = Inr (JArr xs)"
  by (simp add: list_at_def subscript_def split: option.splits json.splits)

lemma stage_b_dict:
  "stage_b (JObj d) =
     (case map_of d (str ''completion'') of
        Some v \<Rightarrow> loads v
      | None \<Rightarrow>
          (case list_at d (str ''content'') of
             Some xs \<Rightarrow> unwrap xs (str ''text'')
           | None \<Rightarrow>
               (case list_at d (str ''results'') of
                  Some xs \<Rightarrow> unwrap xs (str ''outputText'')
                | None \<Rightarrow>
                    (case list_at d (str ''messages'') of
                       Some xs \<Rightarrow> unwrap_messages xs
                     | None \<Rightarrow> Inr (JObj d)))))"
proof (cases "map_of d (str ''completion'')")
  case (Some v)
  then show ?thesis
    unfolding stage_b_def py_in_dict by (simp only: and_then_Inr subscript_dict [OF Some]) simp
next
  case None
  note c1 = None
  show ?thesis
  proof (cases "list_at d (str ''content'')")
    case (Some xs)
    show ?thesis
      unfolding stage_b_def py_in_dict holds_list_at unwrap_def
      by (simp only: and_then_Inr c1 Some subscript_list_at [OF Some]) simp
  next
    case None
    note c2 = None
    show ?thesis
    proof (cases "list_at d (str ''results'')")
      case (Some xs)
      show ?thesis
        unfolding stage_b_def py_in_dict holds_list_at unwrap_def
        by (simp only: and_then_Inr c1 c2 Some subscript_list_at [OF Some]) simp
    next
      case None
      note c3 = None
      show ?thesis
      proof (cases "list_at d (str ''messages'')")
        case (Some xs)
        show ?thesis
          unfolding stage_b_def py_in_dict holds_list_at unwrap_messages_def
          by (simp only: and_then_Inr c1 c2 c3 Some subscript_list_at [OF Some]) simp
      next
        case None
        show ?thesis
          unfolding stage_b_def py_in_dict holds_list_at
          by (simp only: and_then_Inr c1 c2 c3 None) simp
      qed
    qed
  qed
qed

lemma loads_empty: "loads (JStr []) = Inl JSONDecodeError"
  by (simp add: loads_def json_loads_def skip_ws_def)

lemma loads_invalid:
  assumes "\<And>t. v = JStr t \<Longrightarrow> json_loads t = None"
  shows "\<exists>err. loads v = Inl err"
  using assms by (cases v) (auto simp: loads_def)

lemma unwrap_invalid:
  assumes "\<And>t. first_field (JArr xs) f = Some (JStr t) \<Longrightarrow> json_loads t = None"
  shows "\<exists>err. unwrap xs f = Inl err"
proof (cases xs)
  case Nil
  then show ?thesis by (simp add: unwrap_def item0_def and_then_def)
next
  case (Cons x ys)
  show ?thesis
  proof (cases x)
    case (JObj o1)
    show ?thesis
    proof (cases "map_of o1 f")
      case None
      then show ?thesis
        using Cons JObj loads_empty by (simp add: unwrap_def item0_def and_then_def get_def)
    next
      case (Some v)
      then have "first_field (JArr xs) f = Some v" using Cons JObj by (simp add: first_field_def)
      then have "\<And>t. v = JStr t \<Longrightarrow> json_loads t = None" using assms by simp
      then obtain err where "loads v = Inl err" using loads_invalid by blast
      then show ?thesis
        using Cons JObj Some by (simp add: unwrap_def item0_def and_then_def get_def)
    qed
  qed (use Cons in \<open>simp_all add: unwrap_def item0_def and_then_def get_def\<close>)
qed


lemma unwrap_messages_invalid:
  assumes "\<And>t. Option.bind (first_field (JArr xs) (str ''content''))
                (\<lambda>y. first_field y (str ''text'')) = Some (JStr t) \<Longrightarrow> json_loads t = None"
  shows "\<exists>err. unwrap_messages xs = Inl err"
proof (cases xs)
  case Nil
  then show ?thesis by (simp add: unwrap_messages_def item0_def and_then_def)
next
  case (Cons m ys)
  show ?thesis
  proof (cases m)
    case (JObj o1)
    show ?thesis
    proof (cases "map_of o1 (str ''content'')")
      case None
      then show ?thesis
        using Cons JObj loads_empty
        by (simp add: unwrap_messages_def item0_def and_then_def get_def)
    next
      case (Some cs)
      have ff: "first_field (JArr xs) (str ''content'') = Some cs"
        using Cons JObj Some by (simp add: first_field_def)
      have red: "unwrap_messages xs =
          and_then (item0 cs) (\<lambda>c. and_then (get c (str ''text'') (JStr [])) loads)"
        using Cons JObj Some by (simp add: unwrap_messages_def item0_def and_then_def get_def)
      show ?thesis
      proof (cases cs)
        case (JArr zs)
        have "\<And>t. first_field (JArr zs) (str ''text'') = Some (JStr t) \<Longrightarrow> json_loads t = None"
          using assms ff JArr by simp
        then have "\<exists>err. unwrap zs (str ''text'') = Inl err" by (rule unwrap_invalid)
        then show ?thesis
          unfolding red JArr unwrap_def by simp
      next
        case (JStr z)
        then show ?thesis
          unfolding red by (cases z) (simp_all add: item0_def and_then_def get_def)
      qed (simp_all add: red item0_def and_then_def)
    qed
  qed (use Cons in \<open>simp_all add: unwrap_messages_def item0_def and_then_def get_def\<close>)
qed

lemma list_at_first_field:
  "list_at d k = None \<Longrightarrow> Option.bind (map_of d k) (\<lambda>x. first_field x f) = None"
  by (auto simp: list_at_def first_field_def split: option.splits json.splits list.splits)

lemma list_at_first_field2:
  "list_at d k = None \<Longrightarrow>
     Option.bind (map_of d k) (\<lambda>x. Option.bind (first_field x f) g) = None"
  by (auto simp: list_at_def first_field_def split: option.splits json.splits list.splits)

lemma list_at_map_of: "list_at d k = Some xs \<Longrightarrow> map_of d k = Some (JArr xs)"
  by (auto simp: list_at_def split: option.splits json.splits)

lemma stage_b_inner_invalid:
  assumes "spec_shape_text d = Some (JStr t)" and "json_loads t = None"
  shows "\<exists>err. stage_b (JObj d) = Inl err"
proof (cases "map_of d (str ''completion'')")
  case (Some v)
  have "\<And>u. v = JStr u \<Longrightarrow> json_loads u = None"
    using assms Some by (auto simp: spec_shape_text_def)
  then have "\<exists>err. loads v = Inl err" by (rule loads_invalid)
  moreover have "stage_b (JObj d) = loads v" by (simp only: stage_b_dict Some option.case)
  ultimately show ?thesis by simp
next
  case None
  note c1 = None
  show ?thesis
  proof (cases "list_at d (str ''content'')")
    case (Some xs)
    show ?thesis
    proof (cases "first_field (JArr xs) (str ''text'')")
      case None
      then have "\<And>u. first_field (JArr xs) (str ''text'') = Some (JStr u) \<Longrightarrow> json_loads u = None"
        by simp
      then have "\<exists>err. unwrap xs (str ''text'') = Inl err" by (rule unwrap_invalid)
        moreover have "stage_b (JObj d) = unwrap xs (str ''text'')"
          by (simp only: stage_b_dict c1 \<open>list_at d (str ''content'') = Some xs\<close> option.case)
        ultimately show ?thesis by simp
    next
      case (Some w)
      then have "spec_shape_text d = Some w"
        using c1 list_at_map_of [OF \<open>list_at d (str ''content'') = Some xs\<close>]
        by (simp add: spec_shape_text_def)
      then have "\<And>u. first_field (JArr xs) (str ''text'') = Some (JStr u) \<Longrightarrow> json_loads u = None"
        using assms Some by auto
      then have "\<exists>err. unwrap xs (str ''text'') = Inl err" by (rule unwrap_invalid)
      moreover have "stage_b (JObj d) = unwrap xs (str ''text'')"
        by (simp only: stage_b_dict c1 \<open>list_at d (str ''content'') = Some xs\<close> option.case)
      ultimately show ?thesis by simp
    qed
  next
    case None
    note c2 = None
    note s2 = list_at_first_field [OF c2, of "str ''text''"]
    show ?thesis
    proof (cases "list_at d (str ''results'')")
      case (Some xs)
      note l3 = Some
      show ?thesis
      proof (cases "first_field (JArr xs) (str ''outputText'')")
        case None
        then have "\<And>u. first_field (JArr xs) (str ''outputText'') = Some (JStr u) \<Longrightarrow> json_loads u = None"
          by simp
        then have "\<exists>err. unwrap xs (str ''outputText'') = Inl err" by (rule unwrap_invalid)
        moreover have "stage_b (JObj d) = unwrap xs (str ''outputText'')"
          by (simp only: stage_b_dict c1 c2 l3 option.case)
        ultimately show ?thesis by simp
      next
        case (Some w)
        then have "spec_shape_text d = Some w"
          using c1 s2 list_at_map_of [OF l3] by (simp add: spec_shape_text_def)
        then have "\<And>u. first_field (JArr xs) (str ''outputText'') = Some (JStr u) \<Longrightarrow> json_loads u = None"
          using assms Some by auto
        then have "\<exists>err. unwrap xs (str ''outputText'') = Inl err" by (rule unwrap_invalid)
        moreover have "stage_b (JObj d) = unwrap xs (str ''outputText'')"
          by (simp only: stage_b_dict c1 c2 l3 option.case)
        ultimately show ?thesis by simp
      qed
    next
      case None
      note c3 = None
      note s3 = list_at_first_field [OF c3, of "str ''outputText''"]
      show ?thesis
      proof (cases "list_at d (str ''messages'')")
        case (Some xs)
        note l4 = Some
        have "\<And>u. Option.bind (first_field (JArr xs) (str ''content''))
                (\<lambda>y. first_field y (str ''text'')) = Some (JStr u) \<Longrightarrow> json_loads u = None"
        proof -
          fix u
          assume "Option.bind (first_field (JArr xs) (str ''content''))
                (\<lambda>y. first_field y (str ''text'')) = Some (JStr u)"
          then have "spec_shape_text d = Some (JStr u)"
            using c1 s2 s3 list_at_map_of [OF l4] by (simp add: spec_shape_text_def)
          then show "json_loads u = None" using assms by simp
        qed
        then have "\<exists>err. unwrap_messages xs = Inl err" by (rule unwrap_messages_invalid)
        moreover have "stage_b (JObj d) = unwrap_messages xs"
          by (simp only: stage_b_dict c1 c2 c3 l4 option.case)
        ultimately show ?thesis by simp
      next
        case None
        then have "spec_shape_text d = None"
          using c1 s2 s3
            list_at_first_field2 [OF None, of "str ''content''" "\<lambda>y. first_field y (str ''text'')"]
          by (simp add: spec_shape_text_def)
        then show ?thesis using assms by simp
      qed
    qed
  qed
qed

text \<open>
  Claim C5, as stated: Stage B falls through whenever a shape is unmatched, a shape
  matching only when its key holds a non-empty sequence whose first element has the text
  field. It fails on \<open>{"content": [], "summary": "x"}\<close>: the specification's Stage B
  takes the object itself, the handler raises \<open>IndexError\<close>.
\<close>

theorem C5_counterexample:
  "stage_b (JObj [(str ''content'', JArr []), (str ''summary'', JStr (str ''x''))]) = Inl IndexError \<and>
   spec_stage_b [(str ''content'', JArr []), (str ''summary'', JStr (str ''x''))] =
     Inr (JObj [(str ''content'', JArr []), (str ''summary'', JStr (str ''x''))])"
  by code_simp

text \<open>
  Claim C5, amended. Stage B tries the shapes in the order \<open>completion\<close>, \<open>content\<close>,
  \<open>results\<close>, \<open>messages\<close> and falls through to the next when the current one is
  unmatched, where \<open>completion\<close> matches when the key is present and the other three when
  the key holds a list (empty or not); a matched shape reads the first element and its
  text field and parses it, raising where that fails; with no match the Stage-A object
  itself is the classification JSON.
\<close>

theorem C5_stage_b_order:
  "stage_b (JObj d) =
     (case map_of d (str ''completion'') of
        Some v \<Rightarrow> loads v
      | None \<Rightarrow>
          (case list_at d (str ''content'') of
             Some xs \<Rightarrow> unwrap xs (str ''text'')
           | None \<Rightarrow>
               (case list_at d (str ''results'') of
                  Some xs \<Rightarrow> unwrap xs (str ''outputText'')
                | None \<Rightarrow>
                    (case list_at d (str ''messages'') of
                       Some xs \<Rightarrow> unwrap_messages xs
                     | None \<Rightarrow> Inr (JObj d)))))"
  by (rule stage_b_dict)

lemma c2_stage_a:
  \<open>stage_a (str ''{"completion": "not json"}'') =
     Inr (JObj [(str ''completion'', JStr (str ''not json''))], False)\<close>
  by code_simp

lemma c2_shape:
  "spec_shape_text [(str ''completion'', JStr (str ''not json''))] = Some (JStr (str ''not json''))"
  by code_simp

lemma c2_inner: "json_loads (str ''not json'') = None"
  by code_simp

lemma c2_extractor: \<open>extractor (str ''{"completion": "not json"}'') = Inl JSONDecodeError\<close>
  by code_simp

text \<open>
  Claim C2, as stated: an object that matches a family shape but whose inner text is not
  valid JSON falls back to the record of all defaults. It fails on
  \<open>{"completion": "not json"}\<close>: the extraction stage raises \<open>JSONDecodeError\<close>.
\<close>

theorem C2_counterexample:
  \<open>stage_a (str ''{"completion": "not json"}'') =
     Inr (JObj [(str ''completion'', JStr (str ''not json''))], False) \<and>
   spec_shape_text [(str ''completion'', JStr (str ''not json''))] = Some (JStr (str ''not json'')) \<and>
   json_loads (str ''not json'') = None \<and>
   extractor (str ''{"completion": "not json"}'') = Inl JSONDecodeError \<and>
   extractor (str ''{"completion": "not json"}'') \<noteq> Inr default_fields\<close>
  using c2_stage_a c2_shape c2_inner c2_extractor by simp

text \<open>
  Claim C2, amended. For every Stage-A object that matches one of the four family shapes
  but whose inner text is not valid JSON, Stage B raises; the exception reaches the handler
  of line 246 and goes no further, and the record keeps the inference-failure defaults
  (summary \<open>AI analysis unavailable at this time.\<close>, threat flag false, action type
  \<open>ERROR_BEDROCK_FAILED\<close>, empty messages) with the error as its only metadata.
\<close>

theorem C2_inner_parse_failure:
  assumes "stage_a raw = Inr (JObj d, logged)"
    and "spec_shape_text d = Some (JStr t)" and "json_loads t = None"
    and "invoke_model e i (MODEL_ID cfg) body = Inr raw"
  shows "\<exists>err. extractor raw = Inl err \<and>
           analyse cfg e i body =
             (failure_fields, Failure err,
              (if logged then [Log (ExtractFailed raw)] else []) @ [Log (AnalysisFailed err)])"
proof -
  from stage_b_inner_invalid [OF assms(2,3)] obtain err where b: "stage_b (JObj d) = Inl err"
    by blast
  have x: "extractor raw = Inl err" by (simp add: extractor_def assms(1) b and_then_def)
  have "analyse cfg e i body =
      (failure_fields, Failure err,
       (if logged then [Log (ExtractFailed raw)] else []) @ [Log (AnalysisFailed err)])"
    by (simp add: analyse_def assms(1,4) x)
  with x show ?thesis by blast
qed

theorem C2_witness:
  \<open>stage_a (str ''{"content": [{"text": "oops"}]}'') =
     Inr (JObj [(str ''content'', JArr [JObj [(str ''text'', JStr (str ''oops''))]])], False) \<and>
   json_loads (str ''oops'') = None \<and>
   (\<exists>err. extractor (str ''{"content": [{"text": "oops"}]}'') = Inl err \<and>
      analyse cfg_default (env_returning (str ''{"content": [{"text": "oops"}]}'')) 0 (PInt 0) =
        (failure_fields, Failure err, [Log (AnalysisFailed err)]))\<close>
proof -
  have h1: \<open>stage_a (str ''{"content": [{"text": "oops"}]}'') =
     Inr (JObj [(str ''content'', JArr [JObj [(str ''text'', JStr (str ''oops''))]])], False)\<close>
    by code_simp
  have h2: "spec_shape_text [(str ''content'', JArr [JObj [(str ''text'', JStr (str ''oops''))]])] =
      Some (JStr (str ''oops''))"
    by code_simp
  have h3: "json_loads (str ''oops'') = None" by code_simp
  have h4: \<open>invoke_model (env_returning (str ''{"content": [{"text": "oops"}]}'')) 0
      (MODEL_ID cfg_default) (PInt 0) = Inr (str ''{"content": [{"text": "oops"}]}'')\<close>
    by (simp add: env_returning_def)
  show ?thesis
    using C2_inner_parse_failure [OF h1 h2 h3 h4] h1 h3 by simp
qed

section \<open>The request adapter\<close>

lemma startswith_hd: "startswith m (c # p) \<Longrightarrow> m \<noteq> [] \<and> hd m = c"
  by (cases m) (auto simp: startswith_def)

lemma nova_exclusive:
  assumes "is_nova m"
  shows "\<not> is_claude3 m" and "\<not> is_claude_legacy m" and "\<not> is_titan m"
proof -
  have "hd m = 117" using assms startswith_hd unfolding is_nova_def by fastforce
  then show "\<not> is_claude3 m" and "\<not> is_claude_legacy m" and "\<not> is_titan m"
    using startswith_hd unfolding is_claude3_def is_claude_legacy_def is_titan_def by fastforce+
qed

text \<open>
  Claim C4. For every model identifier the adapter returns a payload (a dict; nothing in
  lines 107-161 can raise). The prefixes are tested in the order claude-3,
  claude-v2 / claude-instant, titan-text, nova-lite and the first match decides; each
  family's payload has exactly its keys and carries the prompt where the family expects it
  (for claude-3, \<open>messages[0].content[0].text\<close> is the prompt); any other identifier
  gets the chat-style payload with an \<open>inferenceConfig\<close> block.
\<close>

theorem C4_request_adapter:
  "(\<exists>d. bedrock_body m p = PDict d) \<and>
   (is_claude3 m \<longrightarrow>
      keys (bedrock_body m p) =
        {''anthropic_version'', ''messages'', ''max_tokens'', ''temperature'', ''top_p''} \<and>
      at (bedrock_body m p) [Key ''messages'', Idx 0, Key ''content'', Idx 0, Key ''text''] =
        Some (PStr p)) \<and>
   (\<not> is_claude3 m \<and> is_claude_legacy m \<longrightarrow>
      keys (bedrock_body m p) =
        {''prompt'', ''max_tokens_to_sample'', ''temperature'', ''top_p''} \<and>
      at (bedrock_body m p) [Key ''prompt''] =
        Some (PStr ([Lit ''\<newline>\<newline>Human: ''] @ p @ [Lit ''\<newline>\<newline>Assistant:'']))) \<and>
   (\<not> is_claude3 m \<and> \<not> is_claude_legacy m \<and> is_titan m \<longrightarrow>
      keys (bedrock_body m p) = {''inputText'', ''textGenerationConfig''} \<and>
      at (bedrock_body m p) [Key ''inputText''] = Some (PStr p) \<and>
      map_option keys (at (bedrock_body m p) [Key ''textGenerationConfig'']) =
        Some {''maxTokenCount'', ''temperature'', ''topP''}) \<and>
   (\<not> is_claude3 m \<and> \<not> is_claude_legacy m \<and> \<not> is_titan m \<and> is_nova m \<longrightarrow>
      keys (bedrock_body m p) = {''messages'', ''inferenceConfig''} \<and>
      at (bedrock_body m p) [Key ''messages'', Idx 0, Key ''content'', Idx 0, Key ''text''] =
        Some (PStr p) \<and>
      map_option keys (at (bedrock_body m p) [Key ''inferenceConfig'']) =
        Some {''maxTokens'', ''temperature'', ''topP''}) \<and>
   (\<not> is_claude3 m \<and> \<not> is_claude_legacy m \<and> \<not> is_titan m \<and> \<not> is_nova m \<longrightarrow>
      keys (bedrock_body m p) = {''messages'', ''inferenceConfig''} \<and>
      at (bedrock_body m p) [Key ''messages'', Idx 0, Key ''content'', Idx 0, Key ''text''] =
        Some (PStr p) \<and>
      at (bedrock_body m p) [Key ''messages'', Idx 0, Key ''role''] = Some (PStr [Lit ''user'']) \<and>
      at (bedrock_body m p) [Key ''inferenceConfig''] =
        Some (PDict [(''maxTokens'', PInt 500), (''temperature'', PFloat ''0.2''),
                     (''topP'', PFloat ''0.9'')]))"
  by (auto simp: bedrock_body_def keys_def)

text \<open>
  Claim C10. For every prompt, the nova-lite payload (the family of the default model)
  asks for 150 tokens at temperature 0.7, and every other branch, the fallback included,
  for 500 tokens at temperature 0.2: the default model has the strictly smaller budget.
\<close>

theorem C10_generation_budget:
  "(is_nova m \<longrightarrow>
      at (bedrock_body m p) [Key ''inferenceConfig'', Key ''maxTokens''] = Some (PInt 150) \<and>
      at (bedrock_body m p) [Key ''inferenceConfig'', Key ''temperature''] = Some (PFloat ''0.7'') \<and>
      generation_budget (bedrock_body m p) = Some 150 \<and>
      temperature_of (bedrock_body m p) = Some ''0.7'') \<and>
   (\<not> is_nova m \<longrightarrow>
      generation_budget (bedrock_body m p) = Some 500 \<and>
      temperature_of (bedrock_body m p) = Some ''0.2'') \<and>
   (BEDROCK_MODEL_ID cfg = None \<longrightarrow> is_nova (MODEL_ID cfg)) \<and>
   (is_nova m \<and> \<not> is_nova m' \<longrightarrow>
      (\<exists>a b. generation_budget (bedrock_body m p) = Some a \<and>
             generation_budget (bedrock_body m' p') = Some b \<and> a < b))"
proof -
  have a: "is_nova m \<Longrightarrow> bedrock_body m p =
      PDict [(''messages'',
              PList [PDict [(''role'', PStr [Lit ''user'']),
                            (''content'', PList [PDict [(''text'', PStr p)]])]]),
           (''inferenceConfig'',
              PDict [(''maxTokens'', PInt 150),
                     (''temperature'', PFloat ''0.7''),
                     (''topP'', PFloat ''0.9'')])]" for m p
    using nova_exclusive [of m] by (simp add: bedrock_body_def)
  have n: "is_nova m \<Longrightarrow> generation_budget (bedrock_body m p) = Some 150 \<and>
      temperature_of (bedrock_body m p) = Some ''0.7'' \<and>
      at (bedrock_body m p) [Key ''inferenceConfig'', Key ''maxTokens''] = Some (PInt 150) \<and>
      at (bedrock_body m p) [Key ''inferenceConfig'', Key ''temperature''] = Some (PFloat ''0.7'')" for m p
    by (simp add: a generation_budget_def temperature_of_def)
  have o: "\<not> is_nova m \<Longrightarrow> generation_budget (bedrock_body m p) = Some 500 \<and>
      temperature_of (bedrock_body m p) = Some ''0.2''" for m p
    by (simp add: bedrock_body_def generation_budget_def temperature_of_def)
  have d: "BEDROCK_MODEL_ID cfg = None \<Longrightarrow> is_nova (MODEL_ID cfg)"
    by (simp add: MODEL_ID_def is_nova_def startswith_def)
  show ?thesis using n [of m p] o [of m p] o [of m' p'] d by auto
qed

section \<open>The loop over the alerts\<close>

lemma process_line_put_fails:
  assumes "json_loads (strip line) = Some alert_data" and "build_alert e i alert_data = Inr a"
    and "analyse cfg e i (request_for cfg a) = (c, m, logs)"
    and "put_item e i (DDB_TABLE cfg) (make_item cfg a c m) = Some err"
  shows "process_line cfg e i line =
           (model_warning cfg @ logs @
              [PutItem (DDB_TABLE cfg) (make_item cfg a c m),
               Log (UnexpectedError (strip line) err)], None)"
  using assms by (simp add: process_line_def request_for_def Let_def)

lemma process_line_publish_fails:
  assumes "json_loads (strip line) = Some alert_data" and "build_alert e i alert_data = Inr a"
    and "analyse cfg e i (request_for cfg a) = (c, m, logs)"
    and "put_item e i (DDB_TABLE cfg) (make_item cfg a c m) = None"
    and "publish e i (SNS_TOPIC_ARN cfg) (sns_subject a c) (sns_message_body a c) = Some err"
  shows "process_line cfg e i line =
           (model_warning cfg @ logs @
              [PutItem (DDB_TABLE cfg) (make_item cfg a c m),
               Publish (SNS_TOPIC_ARN cfg) (sns_subject a c) (sns_message_body a c),
               Log (UnexpectedError (strip line) err)], None)"
  using assms by (simp add: process_line_def request_for_def Let_def)

lemma process_line_done:
  assumes "json_loads (strip line) = Some alert_data" and "build_alert e i alert_data = Inr a"
    and "analyse cfg e i (request_for cfg a) = (c, m, logs)"
    and "put_item e i (DDB_TABLE cfg) (make_item cfg a c m) = None"
    and "publish e i (SNS_TOPIC_ARN cfg) (sns_subject a c) (sns_message_body a c) = None"
  shows "process_line cfg e i line =
           (model_warning cfg @ logs @
              [PutItem (DDB_TABLE cfg) (make_item cfg a c m),
               Publish (SNS_TOPIC_ARN cfg) (sns_subject a c) (sns_message_body a c)],
            Some \<lparr>p_AlertID = AlertID a, p_summary = ai_summary c,
                  p_action_type = action_type c, p_is_real_threat = is_real_threat c\<rparr>)"
  using assms by (simp add: process_line_def request_for_def Let_def)

lemma analyse_invoke_fails:
  "invoke_model e i (MODEL_ID cfg) body = Inl err \<Longrightarrow>
     analyse cfg e i body = (failure_fields, Failure err, [Log (AnalysisFailed err)])"
  by (simp add: analyse_def)

lemma process_lines_Cons:
  "fst (process_lines cfg e i (line # rest)) =
     fst (process_line cfg e i line) @ fst (process_lines cfg e (Suc i) rest)"
  "snd (process_lines cfg e i (line # rest)) =
     (case snd (process_line cfg e i line) of None \<Rightarrow> [] | Some x \<Rightarrow> [x]) @
     snd (process_lines cfg e (Suc i) rest)"
  by (simp_all add: split_beta Let_def)

lemma analyse_logs_only: "ev \<in> set (snd (snd (analyse cfg e i body))) \<Longrightarrow> is_log ev"
  by (auto simp: analyse_def is_log_def Let_def split: sum.splits prod.splits bool.splits)

lemma build_alert_dict: "\<exists>a. build_alert e i (JObj d) = Inr a"
  by (simp add: build_alert_def get_def and_then_def)

lemma handler_never_raises:
  "\<exists>r. fst (lambda_handler cfg e (Lines ls)) = Inr r \<and> statusCode r = 200 \<and>
       processed_alerts r = Some (snd (process_lines cfg e 0 ls))"
  by (simp add: lambda_handler_def split_beta Let_def)

lemma log_not_put: "is_log ev \<Longrightarrow> \<not> is_put ev \<and> \<not> is_publish ev"
  by (cases ev) (simp_all add: is_log_def is_put_def is_publish_def)

lemma model_warning_logs: "ev \<in> set (model_warning cfg) \<Longrightarrow> is_log ev"
  by (auto simp: model_warning_def is_log_def split: if_splits)

lemma filter_logs:
  assumes "\<And>ev. ev \<in> set evs \<Longrightarrow> is_log ev"
  shows "filter is_put evs = []" and "filter is_publish evs = []"
  using assms log_not_put by (auto simp: filter_empty_conv)

lemma process_line_counts:
  assumes "json_loads (strip line) = Some (JObj d)"
    and "\<forall>t x. put_item e i t x = None" and "\<forall>t s b. publish e i t s b = None"
  shows "length (filter is_put (fst (process_line cfg e i line))) = 1 \<and>
         length (filter is_publish (fst (process_line cfg e i line))) = 1 \<and>
         (\<exists>x. snd (process_line cfg e i line) = Some x)"
proof -
  obtain a where a: "build_alert e i (JObj d) = Inr a" using build_alert_dict by blast
  obtain c m logs where an: "analyse cfg e i (request_for cfg a) = (c, m, logs)"
    by (cases "analyse cfg e i (request_for cfg a)") auto
  have l: "\<And>ev. ev \<in> set logs \<Longrightarrow> is_log ev"
    using analyse_logs_only [of _ cfg e i "request_for cfg a"] an by simp
  have pl: "process_line cfg e i line =
           (model_warning cfg @ logs @
              [PutItem (DDB_TABLE cfg) (make_item cfg a c m),
               Publish (SNS_TOPIC_ARN cfg) (sns_subject a c) (sns_message_body a c)],
            Some \<lparr>p_AlertID = AlertID a, p_summary = ai_summary c,
                  p_action_type = action_type c, p_is_real_threat = is_real_threat c\<rparr>)"
    using assms(2,3) by (intro process_line_done [OF assms(1) a an]) auto
  show ?thesis
    unfolding pl
    by (simp add: filter_logs [OF l] filter_logs [OF model_warning_logs] is_put_def is_publish_def)
qed

lemma process_lines_counts:
  assumes "\<forall>l\<in>set ls. \<exists>d. json_loads (strip l) = Some (JObj d)"
    and "\<forall>j t x. put_item e j t x = None" and "\<forall>j t s b. publish e j t s b = None"
  shows "length (filter is_put (fst (process_lines cfg e i ls))) = length ls \<and>
         length (filter is_publish (fst (process_lines cfg e i ls))) = length ls \<and>
         length (snd (process_lines cfg e i ls)) = length ls"
  using assms(1)
proof (induction ls arbitrary: i)
  case Nil
  then show ?case by simp
next
  case (Cons line rest)
  from Cons.prems obtain d where d: "json_loads (strip line) = Some (JObj d)" by auto
  have "\<forall>t x. put_item e i t x = None" "\<forall>t s b. publish e i t s b = None"
    using assms(2,3) by auto
  from process_line_counts [OF d this, of cfg] obtain x where
    one: "length (filter is_put (fst (process_line cfg e i line))) = 1"
      "length (filter is_publish (fst (process_line cfg e i line))) = 1"
      "snd (process_line cfg e i line) = Some x" by blast
  have "\<forall>l\<in>set rest. \<exists>d. json_loads (strip l) = Some (JObj d)" using Cons.prems by simp
  from Cons.IH [OF this, of "Suc i"] show ?case
    using one by (simp add: process_lines_Cons del: process_lines.simps)
qed

text \<open>
  Claim C3, amended. For every alert whose inference call raises, the handler builds a
  fully populated record with action type \<open>ERROR_BEDROCK_FAILED\<close>, the summary
  \<open>AI analysis unavailable at this time.\<close> and the error as its metadata; the record is
  passed to persistence and, when that write succeeds, to notification; and the loop goes
  on with the lines behind it. When every line holds a JSON object and both collaborators
  succeed, each line yields one write, one notification and one finalized record, whatever
  the inference calls do.
\<close>

theorem C3_inference_failure:
  "(json_loads (strip line) = Some alert_data \<and> build_alert e i alert_data = Inr a \<and>
    invoke_model e i (MODEL_ID cfg) (request_for cfg a) = Inl err \<longrightarrow>
      (let it = make_item cfg a failure_fields (Failure err);
           evs = fst (process_line cfg e i line)
       in ActionType it = JStr (str ''ERROR_BEDROCK_FAILED'') \<and>
          AISummary it = JStr (str ''AI analysis unavailable at this time.'') \<and>
          IsRealThreat it = JBool False \<and>
          AIHandlingMessage it = JStr [] \<and> HumanGuidanceMessage it = JStr [] \<and>
          Metadata it = Failure err \<and>
          PutItem (DDB_TABLE cfg) it \<in> set evs \<and>
          (put_item e i (DDB_TABLE cfg) it = None \<longrightarrow>
             Publish (SNS_TOPIC_ARN cfg) (sns_subject a failure_fields)
               (sns_message_body a failure_fields) \<in> set evs) \<and>
          fst (process_lines cfg e i (line # rest)) = evs @ fst (process_lines cfg e (Suc i) rest))) \<and>
   ((\<forall>l\<in>set ls. \<exists>d. json_loads (strip l) = Some (JObj d)) \<and>
    (\<forall>j t x. put_item e j t x = None) \<and> (\<forall>j t s b. publish e j t s b = None) \<longrightarrow>
      length (filter is_put (fst (process_lines cfg e k ls))) = length ls \<and>
      length (filter is_publish (fst (process_lines cfg e k ls))) = length ls \<and>
      length (snd (process_lines cfg e k ls)) = length ls)"
proof (intro conjI impI)
  assume h: "json_loads (strip line) = Some alert_data \<and> build_alert e i alert_data = Inr a \<and>
    invoke_model e i (MODEL_ID cfg) (request_for cfg a) = Inl err"
  let ?it = "make_item cfg a failure_fields (Failure err)"
  have an: "analyse cfg e i (request_for cfg a) =
      (failure_fields, Failure err, [Log (AnalysisFailed err)])"
    using h by (simp add: analyse_invoke_fails)
  have f: "ActionType ?it = JStr (str ''ERROR_BEDROCK_FAILED'') \<and>
          AISummary ?it = JStr (str ''AI analysis unavailable at this time.'') \<and>
          IsRealThreat ?it = JBool False \<and>
          AIHandlingMessage ?it = JStr [] \<and> HumanGuidanceMessage ?it = JStr [] \<and>
          Metadata ?it = Failure err"
    by (simp add: make_item_def failure_fields_def)
  have p: "PutItem (DDB_TABLE cfg) ?it \<in> set (fst (process_line cfg e i line))"
  proof (cases "put_item e i (DDB_TABLE cfg) ?it")
    case (Some err')
    from process_line_put_fails [OF _ _ an Some] h show ?thesis by simp
  next
    case None
    note pn = None
    show ?thesis
    proof (cases "publish e i (SNS_TOPIC_ARN cfg) (sns_subject a failure_fields)
                    (sns_message_body a failure_fields)")
      case None
      from process_line_done [OF _ _ an pn None] h show ?thesis by simp
    next
      case (Some err')
      from process_line_publish_fails [OF _ _ an pn Some] h show ?thesis by simp
    qed
  qed
  have q: "put_item e i (DDB_TABLE cfg) ?it = None \<longrightarrow>
      Publish (SNS_TOPIC_ARN cfg) (sns_subject a failure_fields)
        (sns_message_body a failure_fields) \<in> set (fst (process_line cfg e i line))"
  proof
    assume pn: "put_item e i (DDB_TABLE cfg) ?it = None"
    show "Publish (SNS_TOPIC_ARN cfg) (sns_subject a failure_fields)
        (sns_message_body a failure_fields) \<in> set (fst (process_line cfg e i line))"
    proof (cases "publish e i (SNS_TOPIC_ARN cfg) (sns_subject a failure_fields)
                    (sns_message_body a failure_fields)")
      case None
      from process_line_done [OF _ _ an pn None] h show ?thesis by simp
    next
      case (Some err')
      from process_line_publish_fails [OF _ _ an pn Some] h show ?thesis by simp
    qed
  qed
  show "let it = make_item cfg a failure_fields (Failure err);
           evs = fst (process_line cfg e i line)
       in ActionType it = JStr (str ''ERROR_BEDROCK_FAILED'') \<and>
          AISummary it = JStr (str ''AI analysis unavailable at this time.'') \<and>
          IsRealThreat it = JBool False \<and>
          AIHandlingMessage it = JStr [] \<and> HumanGuidanceMessage it = JStr [] \<and>
          Metadata it = Failure err \<and>
          PutItem (DDB_TABLE cfg) it \<in> set evs \<and>
          (put_item e i (DDB_TABLE cfg) it = None \<longrightarrow>
             Publish (SNS_TOPIC_ARN cfg) (sns_subject a failure_fields)
               (sns_message_body a failure_fields) \<in> set evs) \<and>
          fst (process_lines cfg e i (line # rest)) = evs @ fst (process_lines cfg e (Suc i) rest)"
    unfolding Let_def using f p q process_lines_Cons(1) [of cfg e i line rest] by blast
next
  assume "(\<forall>l\<in>set ls. \<exists>d. json_loads (strip l) = Some (JObj d)) \<and>
    (\<forall>j t x. put_item e j t x = None) \<and> (\<forall>j t s b. publish e j t s b = None)"
  then have "length (filter is_put (fst (process_lines cfg e k ls))) = length ls \<and>
         length (filter is_publish (fst (process_lines cfg e k ls))) = length ls \<and>
         length (snd (process_lines cfg e k ls)) = length ls"
    by (intro process_lines_counts) auto
  then show "length (filter is_put (fst (process_lines cfg e k ls))) = length ls"
    and "length (filter is_publish (fst (process_lines cfg e k ls))) = length ls"
    and "length (snd (process_lines cfg e k ls)) = length ls" by auto
qed

lemma line_1_parses:
  "json_loads (strip alert_line_1) =
     Some (JObj [(str ''Severity'', JStr (str ''High'')), (str ''Source'', JStr (str ''IDS'')),
                 (str ''Message'', JStr (str ''port scan''))])"
  by code_simp

lemma line_2_parses:
  "json_loads (strip alert_line_2) =
     Some (JObj [(str ''Severity'', JStr (str ''Low'')), (str ''Source'', JStr (str ''WAF'')),
                 (str ''Message'', JStr (str ''sql injection''))])"
  by code_simp

lemma line_3_parses:
  "json_loads (strip alert_line_3) =
     Some (JObj [(str ''Source'', JStr (str ''EDR'')), (str ''Message'', JStr (str ''malware''))])"
  by code_simp

lemma three_alerts_action_types:
  "map p_action_type
     (snd (process_lines cfg_default env_second_fails 0 [alert_line_1, alert_line_2, alert_line_3])) =
   [JStr (str ''AI_HANDLED''), JStr (str ''ERROR_BEDROCK_FAILED''), JStr (str ''AI_HANDLED'')]"
  by code_simp

lemma put_fails_response:
  "fst (lambda_handler cfg_default env_put_fails (Lines [alert_line_1])) =
     Inr \<lparr>statusCode = 200,
          message = [Lit ''Successfully processed '', Fmt (JInt 0),
                     Lit '' alerts from 'alerts_sample.txt'.''],
          processed_alerts = Some []\<rparr>"
  by code_simp

text \<open>
  Claim C3, as stated, names the action type \<open>ERROR_INFERENCE_FAILED\<close>. With three
  alerts and the inference call failing for the second, the three finalized records carry
  \<open>AI_HANDLED\<close>, \<open>ERROR_BEDROCK_FAILED\<close>, \<open>AI_HANDLED\<close>.
\<close>

theorem C3_counterexample:
  "map p_action_type
     (snd (process_lines cfg_default env_second_fails 0 [alert_line_1, alert_line_2, alert_line_3])) =
   [JStr (str ''AI_HANDLED''), JStr (str ''ERROR_BEDROCK_FAILED''), JStr (str ''AI_HANDLED'')] \<and>
   JStr (str ''ERROR_BEDROCK_FAILED'') \<noteq> JStr (str ''ERROR_INFERENCE_FAILED'')"
  using three_alerts_action_types by simp

lemma alert_2_built:
  "build_alert env_second_fails 1
     (JObj [(str ''Severity'', JStr (str ''Low'')), (str ''Source'', JStr (str ''WAF'')),
            (str ''Message'', JStr (str ''sql injection''))]) = Inr alert_2"
  by code_simp

theorem C3_witness:
  "json_loads (strip alert_line_2) =
     Some (JObj [(str ''Severity'', JStr (str ''Low'')), (str ''Source'', JStr (str ''WAF'')),
                 (str ''Message'', JStr (str ''sql injection''))]) \<and>
   invoke_model env_second_fails 1 (MODEL_ID cfg_default) (request_for cfg_default alert_2) =
     Inl (ClientError 500) \<and>
   PutItem None (make_item cfg_default alert_2 failure_fields (Failure (ClientError 500)))
     \<in> set (fst (process_line cfg_default env_second_fails 1 alert_line_2)) \<and>
   Publish None (sns_subject alert_2 failure_fields) (sns_message_body alert_2 failure_fields)
     \<in> set (fst (process_line cfg_default env_second_fails 1 alert_line_2)) \<and>
   length (filter is_put
     (fst (process_lines cfg_default env_second_fails 0 [alert_line_1, alert_line_2, alert_line_3]))) = 3 \<and>
   length (filter is_publish
     (fst (process_lines cfg_default env_second_fails 0 [alert_line_1, alert_line_2, alert_line_3]))) = 3 \<and>
   length (snd (process_lines cfg_default env_second_fails 0 [alert_line_1, alert_line_2, alert_line_3])) = 3"
proof -
  have h3: "invoke_model env_second_fails 1 (MODEL_ID cfg_default) (request_for cfg_default alert_2) =
     Inl (ClientError 500)"
    by (simp add: env_second_fails_def env_returning_def)
  have h4: "\<forall>l\<in>set [alert_line_1, alert_line_2, alert_line_3].
      \<exists>d. json_loads (strip l) = Some (JObj d)"
    using line_1_parses line_2_parses line_3_parses by simp
  have h5: "\<forall>j t x. put_item env_second_fails j t x = None"
    by (simp add: env_second_fails_def env_returning_def)
  have h6: "\<forall>j t s b. publish env_second_fails j t s b = None"
    by (simp add: env_second_fails_def env_returning_def)
  have t: "DDB_TABLE cfg_default = None" "SNS_TOPIC_ARN cfg_default = None"
    by (simp_all add: cfg_default_def)
  show ?thesis
    using C3_inference_failure [of alert_line_2 _ env_second_fails 1 alert_2 cfg_default
        "ClientError 500" "[]" "[alert_line_1, alert_line_2, alert_line_3]" 0]
      line_2_parses alert_2_built h3 h4 h5 h6
    by (simp add: Let_def t)
qed

text \<open>
  Claim C8, as stated: a failing persistence write is propagated. With the write failing
  for the only alert, the handler returns status 200 and an empty list of processed alerts;
  it does not raise the error.
\<close>

theorem C8_counterexample:
  "fst (lambda_handler cfg_default env_put_fails (Lines [alert_line_1])) =
     Inr \<lparr>statusCode = 200,
          message = [Lit ''Successfully processed '', Fmt (JInt 0),
                     Lit '' alerts from 'alerts_sample.txt'.''],
          processed_alerts = Some []\<rparr> \<and>
   fst (lambda_handler cfg_default env_put_fails (Lines [alert_line_1])) \<noteq> Inl (ClientError 503)"
  using put_fails_response by simp

text \<open>
  Claim C8, amended. A failure of the persistence write or of the notification publish is
  caught by the handler of line 314 and logged as an error with the line and the exception;
  it is not propagated: the invocation returns status 200, the alert is left out of the
  processed alerts (and is not notified when the write failed). The loop still processes
  every remaining line.
\<close>

theorem C8_collaborator_failure:
  "(\<exists>r. fst (lambda_handler cfg e (Lines ls)) = Inr r \<and> statusCode r = 200) \<and>
   (json_loads (strip line) = Some alert_data \<and> build_alert e i alert_data = Inr a \<and>
    analyse cfg e i (request_for cfg a) = (c, m, logs) \<and>
    put_item e i (DDB_TABLE cfg) (make_item cfg a c m) = Some err \<longrightarrow>
      process_line cfg e i line =
        (model_warning cfg @ logs @
           [PutItem (DDB_TABLE cfg) (make_item cfg a c m),
            Log (UnexpectedError (strip line) err)], None)) \<and>
   (json_loads (strip line) = Some alert_data \<and> build_alert e i alert_data = Inr a \<and>
    analyse cfg e i (request_for cfg a) = (c, m, logs) \<and>
    put_item e i (DDB_TABLE cfg) (make_item cfg a c m) = None \<and>
    publish e i (SNS_TOPIC_ARN cfg) (sns_subject a c) (sns_message_body a c) = Some err \<longrightarrow>
      process_line cfg e i line =
        (model_warning cfg @ logs @
           [PutItem (DDB_TABLE cfg) (make_item cfg a c m),
            Publish (SNS_TOPIC_ARN cfg) (sns_subject a c) (sns_message_body a c),
            Log (UnexpectedError (strip line) err)], None)) \<and>
   fst (process_lines cfg e i (line # rest)) =
     fst (process_line cfg e i line) @ fst (process_lines cfg e (Suc i) rest) \<and>
   snd (process_lines cfg e i (line # rest)) =
     (case snd (process_line cfg e i line) of None \<Rightarrow> [] | Some x \<Rightarrow> [x]) @
     snd (process_lines cfg e (Suc i) rest)"
  using handler_never_raises [of cfg e ls] process_line_put_fails process_line_publish_fails
    process_lines_Cons [of cfg e i line rest]
  by blast

end
